theory Spec2Isabelle
  imports Complex_Main
begin

section \<open>Python primitives used by the program\<close>

text \<open>
  A model of \<^verbatim>\<open>src/cf_under_attack.py\<close>: the decision engine \<open>main\<close>
  and the alert dispatcher \<open>send_alert\<close>, with the helpers they call.

  Strings are byte strings (\<open>char list\<close>), so whitespace and digits are the ASCII
  ones. A float is the rational number the double denotes. The two products of the
  program, \<open>cooldown_hours * 3600\<close> and \<open>cooldown_min * 60\<close>, are rounded
  to the nearest double as binary64 multiplication does. The non-finite values
  \<open>inf\<close> and \<open>nan\<close>, and a product beyond the range of a double, on all of
  which \<open>int()\<close> raises, are not represented. Wall-clock time is the integer
  \<open>int(time.time())\<close>.
\<close>

subsection \<open>str.strip, str.split, str.lower\<close>

definition is_space :: "char \<Rightarrow> bool" where
  "is_space c = (c \<in> set [CHR 0x09, CHR 0x0A, CHR 0x0B, CHR 0x0C, CHR 0x0D,
                             CHR 0x1C, CHR 0x1D, CHR 0x1E, CHR 0x1F, CHR '' ''])"

definition strip :: "string \<Rightarrow> string" where
  "strip s = rev (dropWhile is_space (rev (dropWhile is_space s)))"

fun split_aux :: "string \<Rightarrow> string \<Rightarrow> string list" where
  "split_aux cur [] = (if cur = [] then [] else [rev cur])"
| "split_aux cur (c # cs) =
     (if is_space c then (if cur = [] then split_aux [] cs else rev cur # split_aux [] cs)
      else split_aux (c # cur) cs)"

definition split :: "string \<Rightarrow> string list" where
  "split s = split_aux [] s"

definition lower_char :: "char \<Rightarrow> char" where
  "lower_char c =
     (case map_of (zip ''ABCDEFGHIJKLMNOPQRSTUVWXYZ'' ''abcdefghijklmnopqrstuvwxyz'') c of
        None \<Rightarrow> c | Some l \<Rightarrow> l)"

definition lower :: "string \<Rightarrow> string" where
  "lower s = map lower_char s"

subsection \<open>str(int) and int(str)\<close>

definition digit_char :: "nat \<Rightarrow> char" where
  "digit_char d = ''0123456789'' ! d"

function str_nat :: "nat \<Rightarrow> string" where
  "str_nat n = (if n < 10 then [digit_char n] else str_nat (n div 10) @ [digit_char (n mod 10)])"
  by pat_completeness auto
termination
  by (relation "measure id") auto

declare str_nat.simps [simp del]

definition str_int :: "int \<Rightarrow> string" where
  "str_int i = (if i < 0 then CHR ''-'' # str_nat (nat (- i)) else str_nat (nat i))"

definition is_digit :: "char \<Rightarrow> bool" where
  "is_digit c = (c \<in> set ''0123456789'')"

fun index_of :: "'a \<Rightarrow> 'a list \<Rightarrow> nat" where
  "index_of x [] = 0"
| "index_of x (y # ys) = (if x = y then 0 else Suc (index_of x ys))"

definition digit_val :: "char \<Rightarrow> nat" where
  "digit_val c = index_of c ''0123456789''"

text \<open>
  \<open>int(s)\<close> in base ten: surrounding whitespace is ignored, one sign is allowed, and the
  digits may be grouped by single underscores. Anything else is a ValueError, here
  \<open>None\<close>.
\<close>

fun parse_digits :: "nat \<Rightarrow> string \<Rightarrow> nat option" where
  "parse_digits acc [] = Some acc"
| "parse_digits acc (c # cs) =
     (if is_digit c then parse_digits (10 * acc + digit_val c) cs
      else if c = CHR ''_'' \<and> cs \<noteq> [] \<and> is_digit (hd cs) then parse_digits acc cs
      else None)"

definition parse_nat :: "string \<Rightarrow> nat option" where
  "parse_nat s = (case s of [] \<Rightarrow> None
                  | c # cs \<Rightarrow> if is_digit c then parse_digits (digit_val c) cs else None)"

definition py_int :: "string \<Rightarrow> int option" where
  "py_int s = (case strip s of [] \<Rightarrow> None
      | c # cs \<Rightarrow>
          if c = CHR ''-'' then map_option (\<lambda>n. - int n) (parse_nat cs)
          else if c = CHR ''+'' then map_option int (parse_nat cs)
          else map_option int (parse_nat (c # cs)))"

subsection \<open>int(float) and round(float, 2)\<close>

text \<open>
  \<open>int(x)\<close> truncates towards zero. \<open>round(x, 2)\<close> is the multiple of
  1/100 nearest to the exact value of \<open>x\<close>, the even one at a tie; two such
  results are compared as the rationals they are.
\<close>

definition py_trunc :: "rat \<Rightarrow> int" where
  "py_trunc x = (if 0 \<le> x then \<lfloor>x\<rfloor> else \<lceil>x\<rceil>)"

definition round_half_even :: "rat \<Rightarrow> int" where
  "round_half_even x =
     (let f = \<lfloor>x\<rfloor>; d = x - of_int f
      in if d < 1 / 2 then f else if 1 / 2 < d then f + 1 else if even f then f else f + 1)"

definition round2 :: "rat \<Rightarrow> rat" where
  "round2 x = of_int (round_half_even (x * 100)) / 100"


subsection \<open>Float multiplication\<close>

text \<open>
  \<open>bits n\<close> is the number of binary digits of \<open>n\<close>, and for a positive
  \<open>x\<close>, \<open>exponent x\<close> is the integer \<open>e\<close> with
  \<open>2^e \<le> x < 2^(e+1)\<close>. \<open>fl64 x\<close> is the double nearest to \<open>x\<close>,
  the one with the even significand at a tie: a multiple of \<open>2^(e-52)\<close>, or of
  \<open>2^(-1074)\<close> in the subnormal range. \<open>fmul x y\<close> is the product
  \<open>x * y\<close> of two doubles as Python computes it.
\<close>

function bits :: "nat \<Rightarrow> nat" where
  "bits n = (if n = 0 then 0 else Suc (bits (n div 2)))"
  by pat_completeness auto
termination
  by (relation "measure id") auto

declare bits.simps [simp del]

definition exponent :: "rat \<Rightarrow> int" where
  "exponent x =
     (if 1 \<le> x then int (bits (nat \<lfloor>x\<rfloor>)) - 1
      else - int (bits (nat (\<lceil>1 / x\<rceil> - 1))))"

definition pow2 :: "int \<Rightarrow> rat" where
  "pow2 k = (if 0 \<le> k then 2 ^ nat k else 1 / 2 ^ nat (- k))"

definition fl64 :: "rat \<Rightarrow> rat" where
  "fl64 x =
     (if x = 0 then 0
      else (let q = max (exponent \<bar>x\<bar> - 52) (- 1074)
            in of_int (round_half_even (x / pow2 q)) * pow2 q))"

definition fmul :: "rat \<Rightarrow> rat \<Rightarrow> rat" where
  "fmul x y = fl64 (x * y)"

section \<open>The environment and the state of one run\<close>

text \<open>
  A JSON body of the Cloudflare API, reduced to the two fields the code reads:
  \<open>payload.get("success")\<close> and \<open>payload.get("result", {}).get("value", "")\<close>.
  \<open>Malformed\<close> is a body on which these lookups raise (not a JSON object), and
  \<open>result_value = None\<close> is an object without the key, for which the default
  \<open>""\<close> is returned.
\<close>

datatype payload = Malformed | Body (success: bool) (result_value: "string option")

type_synonym config = "string \<rightharpoonup> string"

text \<open>
  Everything a run reads from outside: the dictionary \<open>load_config\<close> returns
  (\<open>None\<close> when the file is missing and \<open>load_config\<close> exits with status 1),
  Python's \<open>float(str)\<close> (\<open>None\<close> for a ValueError), the text of
  \<open>/proc/loadavg\<close> (\<open>None\<close> when it cannot be opened), the host name, the
  successive values of \<open>int(time.time())\<close>, what \<open>cf_request\<close> returns
  for the GET and for the PATCH of a value (status 0 stands for a transport failure),
  \<open>which("sendmail")\<close>, \<open>which("mail")\<close>, and the paths on which
  \<open>open(path, "w")\<close> and \<open>os.remove(path)\<close> raise.
\<close>

record env =
  config :: "config option"
  py_float :: "string \<Rightarrow> rat option"
  proc_loadavg :: "string option"
  hostname :: string
  clock :: "nat \<Rightarrow> int"
  get_response :: "nat \<times> payload"
  patch_response :: "string \<Rightarrow> nat \<times> payload"
  has_sendmail :: bool
  has_mail :: bool
  denied :: "string \<Rightarrow> bool"

text \<open>
  An alert carries the arguments of \<open>send_alert\<close>: which of the four messages of
  \<open>main\<close> it is, the host, the target mode, the rounded load and the rounded
  threshold. The message text itself, which also holds \<open>now_iso()\<close>, is not modelled.
\<close>

datatype alert_kind = ManualOn | ManualOff | Entered | Exited

record alert =
  a_kind :: alert_kind
  a_host :: string
  a_mode :: string
  a_load :: rat
  a_threshold :: rat

datatype log_line =
    ConfigNotFound
  | MissingCredentials
  | GetModeFailed
  | SyncingCache string string
  | SettingLevel string
  | ApiFailed nat

text \<open>
  What a run does to the outside world, in order: the two API requests, the delivery
  attempts of the three channels (a failed delivery is swallowed by the code and leaves
  no other mark), and the lines printed.
\<close>

datatype event =
    HttpGet
  | HttpPatch string
  | SlackPost string bool alert
  | Sendmail string string string alert
  | MailCmd string string string alert
  | ShellCommand string alert
  | Print log_line

record state =
  files :: "string \<rightharpoonup> string"
  ticks :: nat
  trace :: "event list"

definition emit :: "event \<Rightarrow> state \<Rightarrow> state" where
  "emit ev s = s\<lparr>trace := trace s @ [ev]\<rparr>"

definition time_now :: "env \<Rightarrow> state \<Rightarrow> int \<times> state" where
  "time_now e s = (clock e (ticks s), s\<lparr>ticks := Suc (ticks s)\<rparr>)"

section \<open>Configuration and state helpers\<close>

definition cfg_get :: "config \<Rightarrow> string \<Rightarrow> string \<Rightarrow> string" where
  "cfg_get cfg key dflt = (case cfg key of None \<Rightarrow> dflt | Some v \<Rightarrow> v)"

definition cfg_get_cast :: "config \<Rightarrow> string \<Rightarrow> rat \<Rightarrow> (string \<Rightarrow> rat option) \<Rightarrow> rat" where
  "cfg_get_cast cfg key dflt cast =
     (case cfg key of None \<Rightarrow> dflt
      | Some v \<Rightarrow> (case cast v of None \<Rightarrow> dflt | Some x \<Rightarrow> x))"

definition falsy :: "string option \<Rightarrow> bool" where
  "falsy v = (v = None \<or> v = Some [])"

definition read_5min_load :: "env \<Rightarrow> rat" where
  "read_5min_load e =
     (case proc_loadavg e of None \<Rightarrow> 0
      | Some txt \<Rightarrow>
          (let parts = split txt
           in if length parts < 2 then 0
              else (case py_float e (parts ! 1) of None \<Rightarrow> 0 | Some x \<Rightarrow> x)))"

text \<open>
  The files are a map from paths to contents. \<open>read_file\<close> returns the empty
  string for a file that is not there, \<open>write_file\<close> fails, and returns
  \<open>False\<close>, on the empty path and on a path that cannot be written, and
  \<open>remove_file\<close> passes over a missing file and a path that cannot be removed.
  \<open>isfile\<close> is \<open>os.path.isfile\<close>.
\<close>

definition read_file :: "state \<Rightarrow> string \<Rightarrow> string" where
  "read_file s path = (case files s path of None \<Rightarrow> [] | Some c \<Rightarrow> strip c)"

definition write_file :: "env \<Rightarrow> string \<Rightarrow> string \<Rightarrow> state \<Rightarrow> bool \<times> state" where
  "write_file e path content s =
     (if path = [] \<or> denied e path then (False, s)
      else (True, s\<lparr>files := (files s)(path \<mapsto> content)\<rparr>))"

definition remove_file :: "env \<Rightarrow> string \<Rightarrow> state \<Rightarrow> state" where
  "remove_file e path s =
     (if files s path = None \<or> denied e path then s
      else s\<lparr>files := (files s)(path := None)\<rparr>)"

definition isfile :: "state \<Rightarrow> string \<Rightarrow> bool" where
  "isfile s path = (files s path \<noteq> None)"

section \<open>Cloudflare API\<close>

text \<open>
  \<open>cf_request\<close> never raises: it returns the status and the body, which the
  environment supplies. \<open>cf_get_mode\<close> returns the empty string unless the status
  is 200 and the body has a value; \<open>cf_set_mode\<close> returns the status and the
  body's \<open>success\<close> flag.
\<close>

definition cf_get_mode :: "env \<Rightarrow> string" where
  "cf_get_mode e =
     (case get_response e of
        (code, body) \<Rightarrow>
          if code = 200 then
            (case body of Malformed \<Rightarrow> []
             | Body ok v \<Rightarrow> (case v of None \<Rightarrow> [] | Some x \<Rightarrow> x))
          else [])"

definition cf_set_mode :: "env \<Rightarrow> string \<Rightarrow> nat \<times> bool" where
  "cf_set_mode e v =
     (case patch_response e v of
        (code, body) \<Rightarrow> (code, (case body of Malformed \<Rightarrow> False | Body ok r \<Rightarrow> ok)))"

section \<open>Alerts\<close>

text \<open>
  \<open>last_or_zero\<close> is \<open>int(text or "0")\<close> with 0 for a ValueError, the
  way \<open>can_alert\<close> reads the alert timestamp and \<open>main\<close> the activation
  timestamp. The three channels record their delivery attempt; each swallows every
  failure of the transport. \<open>deliver\<close> is the channel dispatch of
  \<open>send_alert\<close> (lines 233--245).
\<close>

definition last_or_zero :: "string \<Rightarrow> int" where
  "last_or_zero txt = (case py_int (if txt = [] then ''0'' else txt) of None \<Rightarrow> 0 | Some n \<Rightarrow> n)"

text \<open>
  \<open>can_alert\<close> compares with \<open>int(cooldown_min * 60)\<close> of line 156: the
  product of the two doubles, rounded to the nearest double, then truncated towards zero,
  with the same limit on the range.
\<close>

definition can_alert :: "env \<Rightarrow> string \<Rightarrow> rat \<Rightarrow> state \<Rightarrow> bool \<times> state" where
  "can_alert e ts_file cooldown_min s =
     (if ts_file = [] then (True, s)
      else (let last = last_or_zero (read_file s ts_file);
                (now, s1) = time_now e s
            in (py_trunc (fmul cooldown_min 60) \<le> now - last, s1)))"

definition record_alert_ts :: "env \<Rightarrow> string \<Rightarrow> state \<Rightarrow> state" where
  "record_alert_ts e ts_file s =
     (if ts_file \<noteq> [] then
        (let (now, s1) = time_now e s in snd (write_file e ts_file (str_int now) s1))
      else s)"

definition alert_slack :: "string \<Rightarrow> bool \<Rightarrow> alert \<Rightarrow> state \<Rightarrow> state" where
  "alert_slack webhook use_blocks a s =
     (if webhook = [] then s else emit (SlackPost webhook use_blocks a) s)"

definition alert_email :: "env \<Rightarrow> string \<Rightarrow> string \<Rightarrow> string \<Rightarrow> alert \<Rightarrow> state \<Rightarrow> state" where
  "alert_email e to_addr from_addr subject_prefix a s =
     (let subject = (if subject_prefix = [] then ''[CF Guard]'' else subject_prefix) @ '' Notification''
      in if has_sendmail e then emit (Sendmail to_addr from_addr subject a) s
         else if has_mail e then emit (MailCmd to_addr from_addr subject a) s
         else s)"

definition alert_command :: "string \<Rightarrow> alert \<Rightarrow> state \<Rightarrow> state" where
  "alert_command command_tpl a s =
     (if command_tpl = [] then s else emit (ShellCommand command_tpl a) s)"

definition alert_ts_file :: "config \<Rightarrow> string" where
  "alert_ts_file cfg = cfg_get cfg ''ALERT_TS_FILE'' ''/tmp/cf_under_attack_alert_ts''"

definition alert_cooldown :: "env \<Rightarrow> config \<Rightarrow> rat" where
  "alert_cooldown e cfg = cfg_get_cast cfg ''ALERT_COOLDOWN_MIN'' 30 (py_float e)"

definition alert_mode :: "config \<Rightarrow> string" where
  "alert_mode cfg = lower (cfg_get cfg ''ALERT_MODE'' ''none'')"

definition deliver :: "env \<Rightarrow> config \<Rightarrow> alert \<Rightarrow> state \<Rightarrow> state" where
  "deliver e cfg a s =
     (if alert_mode cfg = ''slack'' then
        alert_slack (cfg_get cfg ''ALERT_SLACK_WEBHOOK'' [])
          (lower (cfg_get cfg ''ALERT_SLACK_USE_BLOCKS'' ''true'') = ''true'') a s
      else if alert_mode cfg = ''email'' then
        (let to_addr = cfg_get cfg ''ALERT_EMAIL_TO'' [];
             from_addr = cfg_get cfg ''ALERT_EMAIL_FROM'' (''cf-guard@'' @ hostname e);
             subj_prefix = cfg_get cfg ''ALERT_EMAIL_SUBJECT_PREFIX'' ''[CF Guard]''
         in if to_addr \<noteq> [] then alert_email e to_addr from_addr subj_prefix a s else s)
      else if alert_mode cfg = ''command'' then
        alert_command (cfg_get cfg ''ALERT_COMMAND'' []) a s
      else s)"

definition send_alert :: "env \<Rightarrow> config \<Rightarrow> alert \<Rightarrow> state \<Rightarrow> state" where
  "send_alert e cfg a s =
     (if alert_mode cfg = ''none'' then s
      else (let (ok, s1) = can_alert e (alert_ts_file cfg) (alert_cooldown e cfg) s
            in if \<not> ok then s1
               else record_alert_ts e (alert_ts_file cfg) (deliver e cfg a s1)))"

section \<open>Main flow\<close>

text \<open>The operational configuration and the state read at lines 263--272 of \<open>main\<close>.\<close>

definition load_threshold :: "env \<Rightarrow> config \<Rightarrow> rat" where
  "load_threshold e cfg = cfg_get_cast cfg ''LOAD_THRESHOLD'' 7 (py_float e)"

definition low_load_mode :: "config \<Rightarrow> string" where
  "low_load_mode cfg = cfg_get cfg ''LOW_LOAD_MODE'' ''medium''"

definition cache_file :: "config \<Rightarrow> string" where
  "cache_file cfg = cfg_get cfg ''CACHE_FILE'' ''/tmp/cf_mode_cache''"

definition ts_file :: "config \<Rightarrow> string" where
  "ts_file cfg = cfg_get cfg ''TIMESTAMP_FILE'' ''/tmp/cf_under_attack_timestamp''"

definition cooldown_hours :: "env \<Rightarrow> config \<Rightarrow> rat" where
  "cooldown_hours e cfg = cfg_get_cast cfg ''COOLDOWN_HOURS'' 3 (py_float e)"

text \<open>
  \<open>int(cooldown_hours * 3600)\<close> of line 309: the product of the two doubles,
  rounded to the nearest double, then truncated towards zero. (A product beyond the range
  of a double, on which \<open>int()\<close> raises OverflowError, is not represented.)
\<close>

definition cooldown_seconds :: "env \<Rightarrow> config \<Rightarrow> int" where
  "cooldown_seconds e cfg = py_trunc (fmul (cooldown_hours e cfg) 3600)"

definition load_now :: "env \<Rightarrow> rat" where
  "load_now e = round2 (read_5min_load e)"

definition threshold :: "env \<Rightarrow> config \<Rightarrow> rat" where
  "threshold e cfg = round2 (load_threshold e cfg)"

definition mk_alert :: "env \<Rightarrow> config \<Rightarrow> alert_kind \<Rightarrow> string \<Rightarrow> alert" where
  "mk_alert e cfg k m =
     \<lparr>a_kind = k, a_host = hostname e, a_mode = m, a_load = load_now e, a_threshold = threshold e cfg\<rparr>"

text \<open>Lines 284--295 of \<open>main\<close>: manual override detection and cache sync.\<close>

definition sync_cache :: "env \<Rightarrow> config \<Rightarrow> string \<Rightarrow> string \<Rightarrow> state \<Rightarrow> string \<times> state" where
  "sync_cache e cfg actual_mode last_mode s =
     (if actual_mode \<noteq> last_mode then
        (let s1 = emit (Print (SyncingCache last_mode actual_mode)) s;
             s2 = snd (write_file e (cache_file cfg) actual_mode s1)
         in if actual_mode = ''under_attack'' then
              (let (now, s3) = time_now e s2;
                   s4 = snd (write_file e (ts_file cfg) (str_int now) s3)
               in (actual_mode, send_alert e cfg (mk_alert e cfg ManualOn actual_mode) s4))
            else
              (actual_mode,
               send_alert e cfg (mk_alert e cfg ManualOff actual_mode) (remove_file e (ts_file cfg) s2)))
      else (last_mode, s))"

text \<open>Lines 298--313 of \<open>main\<close>: the target mode.\<close>

definition determine_target :: "env \<Rightarrow> config \<Rightarrow> string \<Rightarrow> state \<Rightarrow> string \<times> state" where
  "determine_target e cfg last_mode s =
     (if threshold e cfg < load_now e then
        (''under_attack'',
         if last_mode \<noteq> ''under_attack'' then
           (let (now, s1) = time_now e s in snd (write_file e (ts_file cfg) (str_int now) s1))
         else s)
      else if last_mode = ''under_attack'' \<and> isfile s (ts_file cfg) then
        (let activated_at = last_or_zero (read_file s (ts_file cfg));
             (now, s1) = time_now e s;
             elapsed = now - activated_at
         in if elapsed < cooldown_seconds e cfg then (''under_attack'', s1)
            else (low_load_mode cfg, remove_file e (ts_file cfg) s1))
      else (low_load_mode cfg, s))"

text \<open>Lines 316--328 of \<open>main\<close>: apply the mode change if needed.\<close>

definition apply_mode :: "env \<Rightarrow> config \<Rightarrow> string \<Rightarrow> string \<Rightarrow> state \<Rightarrow> state" where
  "apply_mode e cfg target_mode last_mode s =
     (if target_mode \<noteq> last_mode then
        (let s1 = emit (HttpPatch target_mode) (emit (Print (SettingLevel target_mode)) s);
             (code, ok) = cf_set_mode e target_mode
         in if ok then
              (let s2 = snd (write_file e (cache_file cfg) target_mode s1)
               in if target_mode = ''under_attack'' then
                    send_alert e cfg (mk_alert e cfg Entered target_mode) s2
                  else send_alert e cfg (mk_alert e cfg Exited target_mode) s2)
            else emit (Print (ApiFailed code)) s1)
      else s)"

text \<open>A run starts from the files on disk, with no clock read and nothing done yet.\<close>

definition start :: "(string \<rightharpoonup> string) \<Rightarrow> state" where
  "start fs = \<lparr>files = fs, ticks = 0, trace = []\<rparr>"

text \<open>
  The run up to line 295: the synced \<open>last_mode\<close> and the state after the GET and
  the cache sync; and up to line 313: the target mode and the state in which the mode
  change is applied.
\<close>

definition synced :: "env \<Rightarrow> config \<Rightarrow> (string \<rightharpoonup> string) \<Rightarrow> string \<times> state" where
  "synced e cfg fs =
     (let s1 = emit HttpGet (start fs)
      in sync_cache e cfg (cf_get_mode e) (read_file s1 (cache_file cfg)) s1)"

definition decided :: "env \<Rightarrow> config \<Rightarrow> (string \<rightharpoonup> string) \<Rightarrow> string \<times> state" where
  "decided e cfg fs = (case synced e cfg fs of (last_mode, s) \<Rightarrow> determine_target e cfg last_mode s)"

text \<open>
  \<open>main\<close> returns the exit status and the final state. A missing configuration
  file makes \<open>load_config\<close> exit with status 1.
\<close>

definition main :: "env \<Rightarrow> (string \<rightharpoonup> string) \<Rightarrow> nat \<times> state" where
  "main e fs =
     (case config e of
        None \<Rightarrow> (1, emit (Print ConfigNotFound) (start fs))
      | Some cfg \<Rightarrow>
          if falsy (cfg ''ZONE_ID'') \<or> falsy (cfg ''CF_API_TOKEN'') then
            (1, emit (Print MissingCredentials) (start fs))
          else if cf_get_mode e = [] then
            (2, emit (Print GetModeFailed) (emit HttpGet (start fs)))
          else
            (case synced e cfg fs of
               (last_mode, s) \<Rightarrow>
                 (case determine_target e cfg last_mode s of
                    (target_mode, s') \<Rightarrow> (0, apply_mode e cfg target_mode last_mode s'))))"

section \<open>Predicates used in the statements\<close>

text \<open>
  The three ways the body of \<open>read_5min_load\<close> raises: the file cannot be opened,
  it has fewer than two fields (IndexError), or the second field is not a float
  (ValueError).
\<close>

definition load_read_fails :: "env \<Rightarrow> bool" where
  "load_read_fails e =
     (case proc_loadavg e of None \<Rightarrow> True
      | Some txt \<Rightarrow> length (split txt) < 2 \<or> py_float e (split txt ! 1) = None)"

text \<open>
  The configured channel has what its delivery routine needs before it attempts anything:
  a webhook for Slack, a recipient and one of the two mail programs for email, a command
  template for the command channel.
\<close>

definition channel_ready :: "env \<Rightarrow> config \<Rightarrow> bool" where
  "channel_ready e cfg =
     (alert_mode cfg = ''slack'' \<and> cfg_get cfg ''ALERT_SLACK_WEBHOOK'' [] \<noteq> []
      \<or> alert_mode cfg = ''email'' \<and> cfg_get cfg ''ALERT_EMAIL_TO'' [] \<noteq> []
          \<and> (has_sendmail e \<or> has_mail e)
      \<or> alert_mode cfg = ''command'' \<and> cfg_get cfg ''ALERT_COMMAND'' [] \<noteq> [])"

text \<open>
  The run gets as far as the cache sync: the configuration was loaded, it names a zone and
  a token, and the GET returned a mode.
\<close>

definition reaches_sync :: "env \<Rightarrow> config \<Rightarrow> bool" where
  "reaches_sync e cfg =
     (config e = Some cfg \<and> \<not> falsy (cfg ''ZONE_ID'') \<and> \<not> falsy (cfg ''CF_API_TOKEN'')
      \<and> cf_get_mode e \<noteq> [])"

text \<open>
  The persisted state store works: the cache file, the timestamp file and the alert
  timestamp file are three different paths, and the first two can be written and removed.
\<close>

definition store_ok :: "env \<Rightarrow> config \<Rightarrow> bool" where
  "store_ok e cfg =
     (cache_file cfg \<noteq> [] \<and> \<not> denied e (cache_file cfg)
      \<and> ts_file cfg \<noteq> [] \<and> \<not> denied e (ts_file cfg)
      \<and> cache_file cfg \<noteq> ts_file cfg \<and> cache_file cfg \<noteq> alert_ts_file cfg
      \<and> ts_file cfg \<noteq> alert_ts_file cfg)"

text \<open>
  The file at a path, when there is one, holds ASCII text, as every file the program
  writes does. On such text \<open>strip\<close> and \<open>py_int\<close> are Python's
  \<open>str.strip\<close> and \<open>int\<close>.
\<close>

definition ascii_file :: "state \<Rightarrow> string \<Rightarrow> bool" where
  "ascii_file s path =
     (case files s path of None \<Rightarrow> True | Some c \<Rightarrow> list_all (\<lambda>ch. (of_char ch :: nat) < 128) c)"

text \<open>
  The guard state is consistent when the timestamp file exists exactly when the cached
  mode is \<open>under_attack\<close>.
\<close>

definition guard_consistent :: "config \<Rightarrow> (string \<rightharpoonup> string) \<Rightarrow> bool" where
  "guard_consistent cfg fs =
     ((read_file (start fs) (cache_file cfg) = ''under_attack'') = (fs (ts_file cfg) \<noteq> None))"

section \<open>Example runs\<close>

text \<open>
  A configuration with the Slack channel and every other key left to its default
  (threshold 7.0, normal mode \<open>medium\<close>, cooldown 3 hours, alert cooldown 30 minutes),
  and \<open>float\<close> on the strings that occur, each with the exact value of the double
  that Python parses.
\<close>

definition ex_cfg :: config where
  "ex_cfg = [''ZONE_ID'' \<mapsto> ''zone1'', ''CF_API_TOKEN'' \<mapsto> ''secret'',
             ''ALERT_MODE'' \<mapsto> ''Slack'', ''ALERT_SLACK_WEBHOOK'' \<mapsto> ''https://hooks.example/T1'']"

definition ex_float :: "string \<Rightarrow> rat option" where
  "ex_float = map_of
     [(''9.30'', 2617717283409101 / 281474976710656),
      (''1.00'', 1),
      (''7.004'', 3942901473762869 / 562949953421312),
      (''0.01'', 5764607523034235 / 576460752303423488),
      (''1.2'', 5404319552844595 / 4503599627370496),
      (''4.1'', 2308094809027379 / 562949953421312),
      (''6.996'', 3938397874135499 / 562949953421312),
      (''7.00'', 7)]"

text \<open>High load (9.30 against 7.0), the zone at \<open>medium\<close>, a working API, time 1000000.\<close>

definition env_high :: env where
  "env_high = \<lparr>config = Some ex_cfg, py_float = ex_float,
     proc_loadavg = Some ''8.10 9.30 7.00 3/512 12345'', hostname = ''web1'',
     clock = (\<lambda>_. 1000000), get_response = (200, Body True (Some ''medium'')),
     patch_response = (\<lambda>_. (200, Body True None)), has_sendmail = False, has_mail = False,
     denied = (\<lambda>_. False)\<rparr>"

definition env_high_fail :: env where
  "env_high_fail = env_high\<lparr>patch_response := (\<lambda>_. (500, Body False None))\<rparr>"

text \<open>Low load (1.00), the zone at \<open>under_attack\<close>.\<close>

definition env_low :: env where
  "env_low = env_high\<lparr>proc_loadavg := Some ''0.80 1.00 0.90 1/100 4242'',
     get_response := (200, Body True (Some ''under_attack''))\<rparr>"

definition env_low_fail :: env where
  "env_low_fail = env_low\<lparr>patch_response := (\<lambda>_. (500, Body False None))\<rparr>"

text \<open>Low load, the zone set to \<open>essentially_off\<close> by hand.\<close>

definition env_off :: env where
  "env_off = env_low\<lparr>get_response := (200, Body True (Some ''essentially_off''))\<rparr>"

definition env_unreachable :: env where
  "env_unreachable = env_high\<lparr>get_response := (0, Body False None)\<rparr>"

definition env_7004 :: env where
  "env_7004 = env_high\<lparr>proc_loadavg := Some ''6.90 7.004 7.10 1/100 4242''\<rparr>"

definition env_noload :: env where
  "env_noload = env_high\<lparr>proc_loadavg := None\<rparr>"

definition fs_medium :: "string \<rightharpoonup> string" where
  "fs_medium = [''/tmp/cf_mode_cache'' \<mapsto> ''medium'']"

definition fs_attack :: "string \<Rightarrow> (string \<rightharpoonup> string)" where
  "fs_attack t = [''/tmp/cf_mode_cache'' \<mapsto> ''under_attack'', ''/tmp/cf_under_attack_timestamp'' \<mapsto> t]"

text \<open>A cooldown of 0.01 minutes, and an alert recorded at time 1000000.\<close>

definition cfg_short :: config where
  "cfg_short = ex_cfg(''ALERT_COOLDOWN_MIN'' \<mapsto> ''0.01'')"

definition fs_alerted :: "string \<rightharpoonup> string" where
  "fs_alerted = [''/tmp/cf_under_attack_alert_ts'' \<mapsto> ''1000000'']"

text \<open>The cache says \<open>under_attack\<close> and there is no timestamp file.\<close>

definition fs_no_ts :: "string \<rightharpoonup> string" where
  "fs_no_ts = [''/tmp/cf_mode_cache'' \<mapsto> ''under_attack'']"

text \<open>A cooldown of 4.1 hours, with low load and the zone at \<open>under_attack\<close>.\<close>

definition cfg_41 :: config where
  "cfg_41 = ex_cfg(''COOLDOWN_HOURS'' \<mapsto> ''4.1'')"

definition env_41 :: env where
  "env_41 = env_low\<lparr>config := Some cfg_41\<rparr>"

text \<open>
  Cooldowns of 1.2 hours and 1.2 minutes, for which \<open>int(1.2 * 3600) = 4320\<close> and
  \<open>int(1.2 * 60) = 72\<close>; and an alert recorded 71 seconds before time 1000000.
\<close>

definition cfg_12 :: config where
  "cfg_12 = ex_cfg(''COOLDOWN_HOURS'' \<mapsto> ''1.2'', ''ALERT_COOLDOWN_MIN'' \<mapsto> ''1.2'')"

definition env_12 :: env where
  "env_12 = env_low\<lparr>config := Some cfg_12\<rparr>"

definition fs_alerted_71 :: "string \<rightharpoonup> string" where
  "fs_alerted_71 = [''/tmp/cf_under_attack_alert_ts'' \<mapsto> ''999929'']"

text \<open>A threshold of 6.996 against a load of 7.00, the zone at \<open>medium\<close>.\<close>

definition cfg_6996 :: config where
  "cfg_6996 = ex_cfg(''LOAD_THRESHOLD'' \<mapsto> ''6.996'')"

definition env_6996 :: env where
  "env_6996 = env_high\<lparr>config := Some cfg_6996,
     proc_loadavg := Some ''6.80 7.00 7.10 1/100 4242''\<rparr>"

text \<open>
  Only the zone and the token configured, so \<open>ALERT_MODE\<close> is at its default
  \<open>none\<close>; low load, the zone set to \<open>essentially_off\<close> by hand.
\<close>

definition cfg_plain :: config where
  "cfg_plain = [''ZONE_ID'' \<mapsto> ''zone1'', ''CF_API_TOKEN'' \<mapsto> ''secret'']"

definition env_plain :: env where
  "env_plain = env_off\<lparr>config := Some cfg_plain\<rparr>"

definition ex_alert :: "alert_kind \<Rightarrow> string \<Rightarrow> rat \<Rightarrow> alert" where
  "ex_alert k m l = \<lparr>a_kind = k, a_host = ''web1'', a_mode = m, a_load = l, a_threshold = 7\<rparr>"

section \<open>Facts about the primitives\<close>

lemma str_nat_unfold:
  "n < 10 \<Longrightarrow> str_nat n = [digit_char n]"
  "\<not> n < 10 \<Longrightarrow> str_nat n = str_nat (n div 10) @ [digit_char (n mod 10)]"
  by (simp_all add: str_nat.simps)

lemma digit_cases:
  "k < 10 \<Longrightarrow> k = 0 \<or> k = 1 \<or> k = 2 \<or> k = 3 \<or> k = 4 \<or> k = 5 \<or> k = 6 \<or> k = 7 \<or> k = 8 \<or> k = (9::nat)"
  by arith

lemma digit_char_props:
  assumes "k < 10"
  shows "is_digit (digit_char k)" "digit_val (digit_char k) = k"
  using digit_cases[OF assms]
  by (auto simp add: is_digit_def digit_char_def digit_val_def)

lemma digit_not_special: "is_digit c \<Longrightarrow> \<not> is_space c \<and> c \<noteq> CHR ''-'' \<and> c \<noteq> CHR ''+''"
  by (auto simp add: is_digit_def is_space_def)

lemma parse_digits_snoc:
  "\<forall>c\<in>set ds. is_digit c \<Longrightarrow> is_digit d \<Longrightarrow>
   parse_digits acc (ds @ [d]) = map_option (\<lambda>v. 10 * v + digit_val d) (parse_digits acc ds)"
  by (induction ds arbitrary: acc) simp_all

lemma str_nat_digits: "\<forall>c\<in>set (str_nat n). is_digit c"
proof (induction n rule: str_nat.induct)
  case (1 n)
  show ?case
  proof (cases "n < 10")
    case True
    then show ?thesis by (simp add: digit_char_props str_nat_unfold)
  next
    case False
    then show ?thesis using 1 by (simp add: digit_char_props str_nat_unfold)
  qed
qed

lemma str_nat_nonempty: "str_nat n \<noteq> []"
  by (cases "n < 10") (simp_all add: str_nat_unfold)

lemma str_nat_hd: "is_digit (hd (str_nat n))"
  using str_nat_digits[of n] str_nat_nonempty[of n] by (cases "str_nat n") simp_all

lemma str_nat_last: "is_digit (last (str_nat n))"
  using str_nat_digits[of n] str_nat_nonempty[of n] last_in_set by blast

text \<open>Reading back a printed number gives the number: \<open>int(str(n)) = n\<close>.\<close>

lemma parse_nat_str_nat: "parse_nat (str_nat n) = Some n"
proof (induction n rule: str_nat.induct)
  case (1 n)
  show ?case
  proof (cases "n < 10")
    case True
    then show ?thesis
      by (simp add: parse_nat_def digit_char_props str_nat_unfold)
  next
    case False
    obtain x xs where xs: "str_nat (n div 10) = x # xs"
      using str_nat_nonempty[of "n div 10"] by (cases "str_nat (n div 10)") auto
    have dx: "is_digit x" "\<forall>c\<in>set xs. is_digit c"
      using str_nat_digits[of "n div 10"] xs by simp_all
    have ih: "parse_nat (x # xs) = Some (n div 10)"
      using 1 False xs by simp
    have "parse_nat (str_nat n) = parse_nat (x # (xs @ [digit_char (n mod 10)]))"
      using False xs by (simp add: str_nat_unfold)
    also have "\<dots> = map_option (\<lambda>v. 10 * v + digit_val (digit_char (n mod 10))) (parse_nat (x # xs))"
      using dx by (simp add: parse_nat_def parse_digits_snoc digit_char_props)
    also have "\<dots> = Some n"
      using ih by (simp add: digit_char_props)
    finally show ?thesis .
  qed
qed

lemma dropWhile_hd: "xs \<noteq> [] \<Longrightarrow> \<not> P (hd xs) \<Longrightarrow> dropWhile P xs = xs"
  by (cases xs) simp_all

lemma strip_id:
  assumes "s \<noteq> []" "\<not> is_space (hd s)" "\<not> is_space (last s)"
  shows "strip s = s"
proof -
  have a: "dropWhile is_space s = s"
    using assms(1,2) by (rule dropWhile_hd)
  have "rev s \<noteq> []" "\<not> is_space (hd (rev s))"
    using assms(1,3) by (simp_all add: hd_rev)
  then have b: "dropWhile is_space (rev s) = rev s"
    by (rule dropWhile_hd)
  show ?thesis by (simp add: strip_def a b)
qed

lemma str_int_nonempty: "str_int i \<noteq> []"
  by (simp add: str_int_def str_nat_nonempty)

lemma strip_str_int: "strip (str_int i) = str_int i"
proof (rule strip_id)
  show "str_int i \<noteq> []"
    by (rule str_int_nonempty)
  have "\<not> is_space CHR ''-''"
    by (simp add: is_space_def)
  then show "\<not> is_space (hd (str_int i))"
    using digit_not_special[OF str_nat_hd] by (simp add: str_int_def)
  show "\<not> is_space (last (str_int i))"
    using digit_not_special[OF str_nat_last] by (simp add: str_int_def str_nat_nonempty)
qed

lemma py_int_str_int: "py_int (str_int i) = Some i"
proof -
  obtain x xs where xs: "str_nat (nat i) = x # xs"
    using str_nat_nonempty[of "nat i"] by (cases "str_nat (nat i)") auto
  have "is_digit x" using str_nat_hd[of "nat i"] xs by simp
  then have nx: "x \<noteq> CHR ''-''" "x \<noteq> CHR ''+''" using digit_not_special by blast+
  show ?thesis
  proof (cases "i < 0")
    case True
    have "strip (str_int i) = CHR ''-'' # str_nat (nat (- i))"
      using True strip_str_int[of i] by (simp add: str_int_def)
    then show ?thesis using True by (simp add: py_int_def parse_nat_str_nat)
  next
    case False
    have "strip (str_int i) = x # xs"
      using False strip_str_int[of i] xs by (simp add: str_int_def)
    moreover have "parse_nat (x # xs) = Some (nat i)"
      using parse_nat_str_nat[of "nat i"] xs by simp
    ultimately show ?thesis using False nx by (simp add: py_int_def)
  qed
qed

lemma last_or_zero_str_int: "last_or_zero (strip (str_int n)) = n"
  by (simp add: last_or_zero_def strip_str_int str_int_nonempty py_int_str_int)

lemma strip_under_attack: "strip ''under_attack'' = ''under_attack''"
  by (simp add: strip_def is_space_def)

lemma floor_rat_numeral: "\<lfloor>numeral a / numeral b :: rat\<rfloor> = numeral a div numeral b"
  by (metis floor_divide_of_int_eq of_int_numeral)

lemma floor_rat_neg_numeral: "\<lfloor>- (numeral a / numeral b) :: rat\<rfloor> = - numeral a div numeral b"
  by (metis divide_minus_left floor_divide_of_int_eq of_int_neg_numeral of_int_numeral)

lemma bits_unfold:
  "n = 0 \<Longrightarrow> bits n = 0"
  "n \<noteq> 0 \<Longrightarrow> bits n = Suc (bits (n div 2))"
  by (simp_all add: bits.simps)

lemmas float_defs = fmul_def fl64_def exponent_def pow2_def bits_unfold round_half_even_def
  ceiling_def floor_rat_numeral floor_rat_neg_numeral

text \<open>
  The products as Python computes them: \<open>int(1.2 * 3600) = 4320\<close>,
  \<open>int(4.1 * 3600) = 14759\<close>, \<open>int(1.2 * 60) = 72\<close>,
  \<open>int(0.01 * 60) = 0\<close>, and whole hours and minutes exactly.
\<close>

lemma float_product_examples:
  "py_trunc (fmul (5404319552844595 / 4503599627370496) 3600) = 4320"
  "py_trunc (fmul (2308094809027379 / 562949953421312) 3600) = 14759"
  "py_trunc (fmul (5404319552844595 / 4503599627370496) 60) = 72"
  "py_trunc (fmul (5764607523034235 / 576460752303423488) 60) = 0"
  "py_trunc (fmul 3 3600) = 10800"
  "py_trunc (fmul 30 60) = 1800"
  by (simp_all add: float_defs py_trunc_def Let_def)

lemma round_half_even_nonneg: "0 \<le> x \<Longrightarrow> 0 \<le> round_half_even x"
  by (simp add: round_half_even_def Let_def)

lemma round2_nonneg: "0 \<le> x \<Longrightarrow> 0 \<le> round2 x"
  by (simp add: round2_def round_half_even_nonneg)

lemma round2_zero: "round2 0 = 0"
  by (simp add: round2_def round_half_even_def)

lemma round2_examples:
  "round2 (2617717283409101 / 281474976710656) = 93 / 10"
  "round2 1 = 1" "round2 7 = 7"
  "round2 (3942901473762869 / 562949953421312) = 7"
  by (simp_all add: round2_def round_half_even_def Let_def floor_rat_numeral)

lemma round2_6996: "round2 (3938397874135499 / 562949953421312) = 7"
  by (simp add: round2_def round_half_even_def Let_def floor_rat_numeral)

section \<open>Facts about the state helpers\<close>

lemma emit_simps [simp]:
  "files (emit ev s) = files s" "ticks (emit ev s) = ticks s" "trace (emit ev s) = trace s @ [ev]"
  by (simp_all add: emit_def)

lemma write_file_simps [simp]:
  "ticks (snd (write_file e p c s)) = ticks s"
  "trace (snd (write_file e p c s)) = trace s"
  "q \<noteq> p \<Longrightarrow> files (snd (write_file e p c s)) q = files s q"
  "p \<noteq> [] \<Longrightarrow> \<not> denied e p \<Longrightarrow> files (snd (write_file e p c s)) p = Some c"
  by (simp_all add: write_file_def)

lemma remove_file_simps [simp]:
  "ticks (remove_file e p s) = ticks s"
  "trace (remove_file e p s) = trace s"
  "q \<noteq> p \<Longrightarrow> files (remove_file e p s) q = files s q"
  "\<not> denied e p \<Longrightarrow> files (remove_file e p s) p = None"
  by (simp_all add: remove_file_def)

lemma read_file_written: "files s p = Some c \<Longrightarrow> read_file s p = strip c"
  by (simp add: read_file_def)

lemma store_ok_sym:
  "store_ok e cfg \<Longrightarrow>
   ts_file cfg \<noteq> cache_file cfg \<and> alert_ts_file cfg \<noteq> cache_file cfg \<and> alert_ts_file cfg \<noteq> ts_file cfg"
  by (auto simp add: store_ok_def)

section \<open>Facts about the alert dispatcher\<close>

lemma deliver_simps [simp]:
  "files (deliver e cfg a s) = files s" "ticks (deliver e cfg a s) = ticks s"
  by (simp_all add: deliver_def alert_slack_def alert_email_def alert_command_def Let_def)

lemma deliver_ticks_upd:
  "deliver e cfg a (s\<lparr>ticks := n\<rparr>) = (deliver e cfg a s)\<lparr>ticks := n\<rparr>"
  by (simp add: deliver_def alert_slack_def alert_email_def alert_command_def Let_def emit_def)

lemma deliver_trace_ready:
  "channel_ready e cfg \<Longrightarrow> length (trace (deliver e cfg a s)) = Suc (length (trace s))"
  by (auto simp add: channel_ready_def deliver_def alert_slack_def alert_email_def alert_command_def Let_def)

text \<open>What each channel attempts when it has its parameters.\<close>

lemma deliver_slack:
  "alert_mode cfg = ''slack'' \<Longrightarrow> cfg_get cfg ''ALERT_SLACK_WEBHOOK'' [] \<noteq> [] \<Longrightarrow>
   trace (deliver e cfg a s) =
     trace s @ [SlackPost (cfg_get cfg ''ALERT_SLACK_WEBHOOK'' [])
                  (lower (cfg_get cfg ''ALERT_SLACK_USE_BLOCKS'' ''true'') = ''true'') a]"
  by (simp add: deliver_def alert_slack_def)

lemma deliver_sendmail:
  "alert_mode cfg = ''email'' \<Longrightarrow> cfg_get cfg ''ALERT_EMAIL_TO'' [] \<noteq> [] \<Longrightarrow> has_sendmail e \<Longrightarrow>
   trace (deliver e cfg a s) =
     trace s @ [Sendmail (cfg_get cfg ''ALERT_EMAIL_TO'' [])
                  (cfg_get cfg ''ALERT_EMAIL_FROM'' (''cf-guard@'' @ hostname e))
                  ((if cfg_get cfg ''ALERT_EMAIL_SUBJECT_PREFIX'' ''[CF Guard]'' = [] then ''[CF Guard]''
                    else cfg_get cfg ''ALERT_EMAIL_SUBJECT_PREFIX'' ''[CF Guard]'') @ '' Notification'') a]"
  by (simp add: deliver_def alert_email_def Let_def)

lemma deliver_mail:
  "alert_mode cfg = ''email'' \<Longrightarrow> cfg_get cfg ''ALERT_EMAIL_TO'' [] \<noteq> [] \<Longrightarrow>
   \<not> has_sendmail e \<Longrightarrow> has_mail e \<Longrightarrow>
   trace (deliver e cfg a s) =
     trace s @ [MailCmd (cfg_get cfg ''ALERT_EMAIL_TO'' [])
                  (cfg_get cfg ''ALERT_EMAIL_FROM'' (''cf-guard@'' @ hostname e))
                  ((if cfg_get cfg ''ALERT_EMAIL_SUBJECT_PREFIX'' ''[CF Guard]'' = [] then ''[CF Guard]''
                    else cfg_get cfg ''ALERT_EMAIL_SUBJECT_PREFIX'' ''[CF Guard]'') @ '' Notification'') a]"
  by (simp add: deliver_def alert_email_def Let_def)

lemma deliver_command:
  "alert_mode cfg = ''command'' \<Longrightarrow> cfg_get cfg ''ALERT_COMMAND'' [] \<noteq> [] \<Longrightarrow>
   trace (deliver e cfg a s) = trace s @ [ShellCommand (cfg_get cfg ''ALERT_COMMAND'' []) a]"
  by (simp add: deliver_def alert_command_def)

lemma record_alert_ts_simps [simp]:
  "trace (record_alert_ts e p s) = trace s"
  "q \<noteq> p \<Longrightarrow> files (record_alert_ts e p s) q = files s q"
  "files (record_alert_ts e [] s) = files s"
  by (simp_all add: record_alert_ts_def time_now_def)

lemma record_alert_ts_written:
  "p \<noteq> [] \<Longrightarrow> \<not> denied e p \<Longrightarrow>
   record_alert_ts e p s = s\<lparr>files := (files s)(p \<mapsto> str_int (clock e (ticks s))), ticks := Suc (ticks s)\<rparr>"
  by (simp add: record_alert_ts_def time_now_def write_file_def)

lemma send_alert_files_other:
  "q \<noteq> alert_ts_file cfg \<Longrightarrow> files (send_alert e cfg a s) q = files s q"
  by (simp add: send_alert_def can_alert_def time_now_def Let_def)

lemma send_alert_suppressed:
  assumes "alert_mode cfg \<noteq> ''none''" "alert_ts_file cfg \<noteq> []"
    and "clock e (ticks s) - last_or_zero (read_file s (alert_ts_file cfg)) < py_trunc (fmul (alert_cooldown e cfg) 60)"
  shows "send_alert e cfg a s = s\<lparr>ticks := Suc (ticks s)\<rparr>"
  using assms by (simp add: send_alert_def can_alert_def time_now_def Let_def)

lemma send_alert_passed:
  assumes "alert_mode cfg \<noteq> ''none''" "alert_ts_file cfg \<noteq> []"
    and "py_trunc (fmul (alert_cooldown e cfg) 60) \<le> clock e (ticks s) - last_or_zero (read_file s (alert_ts_file cfg))"
  shows "send_alert e cfg a s =
         record_alert_ts e (alert_ts_file cfg) (deliver e cfg a (s\<lparr>ticks := Suc (ticks s)\<rparr>))"
  using assms by (simp add: send_alert_def can_alert_def time_now_def Let_def)

lemma send_alert_none: "alert_mode cfg = ''none'' \<Longrightarrow> send_alert e cfg a s = s"
  by (simp add: send_alert_def)

lemma send_alert_trace_closed:
  assumes "alert_ts_file cfg \<noteq> []"
    and "clock e (ticks s) - last_or_zero (read_file s (alert_ts_file cfg)) < py_trunc (fmul (alert_cooldown e cfg) 60)"
  shows "trace (send_alert e cfg a s) = trace s"
  using assms by (simp add: send_alert_def can_alert_def time_now_def Let_def)

lemma send_alert_trace_due:
  assumes "alert_mode cfg \<noteq> ''none''"
    and "alert_ts_file cfg = []
         \<or> py_trunc (fmul (alert_cooldown e cfg) 60) \<le> clock e (ticks s) - last_or_zero (read_file s (alert_ts_file cfg))"
  shows "trace (send_alert e cfg a s) = trace (deliver e cfg a s)"
  using assms by (auto simp add: send_alert_def can_alert_def time_now_def Let_def deliver_ticks_upd)

section \<open>Facts about the three parts of the main flow\<close>

lemma synced_no_drift:
  "cf_get_mode e = read_file (start fs) (cache_file cfg) \<Longrightarrow>
   synced e cfg fs = (cf_get_mode e, \<lparr>files = fs, ticks = 0, trace = [HttpGet]\<rparr>)"
  by (simp add: synced_def sync_cache_def read_file_def start_def emit_def)

lemma synced_drift:
  "cf_get_mode e \<noteq> read_file (start fs) (cache_file cfg) \<Longrightarrow>
   synced e cfg fs =
     (cf_get_mode e,
      (let s2 = snd (write_file e (cache_file cfg) (cf_get_mode e)
                  \<lparr>files = fs, ticks = 0,
                   trace = [HttpGet, Print (SyncingCache (read_file (start fs) (cache_file cfg)) (cf_get_mode e))]\<rparr>)
       in if cf_get_mode e = ''under_attack'' then
            send_alert e cfg (mk_alert e cfg ManualOn (cf_get_mode e))
              (snd (write_file e (ts_file cfg) (str_int (clock e 0)) (s2\<lparr>ticks := Suc 0\<rparr>)))
          else send_alert e cfg (mk_alert e cfg ManualOff (cf_get_mode e)) (remove_file e (ts_file cfg) s2)))"
  by (simp add: synced_def sync_cache_def read_file_def start_def emit_def time_now_def Let_def write_file_def)

lemma determine_target_files_other:
  "q \<noteq> ts_file cfg \<Longrightarrow> files (snd (determine_target e cfg l s)) q = files s q"
  by (simp add: determine_target_def time_now_def Let_def)

lemma determine_target_values:
  "fst (determine_target e cfg l s) = ''under_attack'' \<or> fst (determine_target e cfg l s) = low_load_mode cfg"
  by (simp add: determine_target_def time_now_def Let_def)

lemma apply_mode_same: "apply_mode e cfg t t s = s"
  by (simp add: apply_mode_def)

lemma apply_mode_failed:
  assumes "t \<noteq> l" "\<not> snd (cf_set_mode e t)"
  shows "apply_mode e cfg t l s =
         s\<lparr>trace := trace s @ [Print (SettingLevel t), HttpPatch t, Print (ApiFailed (fst (cf_set_mode e t)))]\<rparr>"
  using assms by (simp add: apply_mode_def case_prod_beta Let_def emit_def)

lemma apply_mode_success:
  assumes "t \<noteq> l" "snd (cf_set_mode e t)"
  shows "apply_mode e cfg t l s =
         send_alert e cfg (mk_alert e cfg (if t = ''under_attack'' then Entered else Exited) t)
           (snd (write_file e (cache_file cfg) t
              (s\<lparr>trace := trace s @ [Print (SettingLevel t), HttpPatch t]\<rparr>)))"
  using assms by (simp add: apply_mode_def case_prod_beta Let_def emit_def)

lemma apply_mode_files_other:
  "p \<noteq> cache_file cfg \<Longrightarrow> p \<noteq> alert_ts_file cfg \<Longrightarrow> files (apply_mode e cfg t l s) p = files s p"
  by (simp add: apply_mode_def case_prod_beta Let_def send_alert_files_other)

lemma apply_mode_cache:
  assumes "store_ok e cfg" "t \<noteq> l \<longrightarrow> snd (cf_set_mode e t)" "strip t = t"
    and "t = l \<longrightarrow> read_file s (cache_file cfg) = l"
  shows "read_file (apply_mode e cfg t l s) (cache_file cfg) = t"
proof (cases "t = l")
  case True
  then show ?thesis using assms(4) by (simp add: apply_mode_same)
next
  case False
  have "files (apply_mode e cfg t l s) (cache_file cfg) = Some t"
    using False assms(1,2) by (simp add: apply_mode_success store_ok_def send_alert_files_other)
  then show ?thesis using assms(3) by (simp add: read_file_written)
qed

lemma main_reached:
  "reaches_sync e cfg \<Longrightarrow>
   main e fs = (0, apply_mode e cfg (fst (decided e cfg fs)) (fst (synced e cfg fs)) (snd (decided e cfg fs)))"
  by (simp add: reaches_sync_def main_def decided_def case_prod_beta)

lemma main_early:
  "\<not> reaches_sync e cfg \<Longrightarrow> config e = Some cfg \<Longrightarrow> files (snd (main e fs)) = fs"
  by (auto simp add: reaches_sync_def main_def start_def)

lemma decided_eq:
  "synced e cfg fs = (l, s) \<Longrightarrow> decided e cfg fs = determine_target e cfg l s"
  by (simp add: decided_def)

lemma read_5min_load_failure: "load_read_fails e \<Longrightarrow> read_5min_load e = 0"
  by (auto simp add: load_read_fails_def read_5min_load_def Let_def split: option.splits)

lemma guard_consistent_state:
  "guard_consistent cfg (files s) =
     ((read_file s (cache_file cfg) = ''under_attack'') = isfile s (ts_file cfg))"
  by (simp add: guard_consistent_def read_file_def start_def isfile_def)

lemma synced_consistent:
  assumes "store_ok e cfg" "guard_consistent cfg fs" "strip (cf_get_mode e) = cf_get_mode e"
  shows "read_file (snd (synced e cfg fs)) (cache_file cfg) = fst (synced e cfg fs)
       \<and> (fst (synced e cfg fs) = ''under_attack'') = isfile (snd (synced e cfg fs)) (ts_file cfg)"
proof (cases "cf_get_mode e = read_file (start fs) (cache_file cfg)")
  case True
  then show ?thesis
    using assms(2) by (simp add: synced_no_drift guard_consistent_def read_file_def start_def isfile_def)
next
  case False
  have c: "files (snd (synced e cfg fs)) (cache_file cfg) = Some (cf_get_mode e)"
    using False assms(1) by (simp add: store_ok_def synced_drift Let_def send_alert_files_other)
  have t: "files (snd (synced e cfg fs)) (ts_file cfg) =
           (if cf_get_mode e = ''under_attack'' then Some (str_int (clock e 0)) else None)"
    using False assms(1) by (simp add: store_ok_def synced_drift Let_def send_alert_files_other)
  show ?thesis
    using False c t assms(3) by (simp add: read_file_written isfile_def synced_drift)
qed

lemma determine_target_consistent:
  assumes "store_ok e cfg" "(l = ''under_attack'') = isfile s (ts_file cfg)"
    and "low_load_mode cfg \<noteq> ''under_attack''"
  shows "(fst (determine_target e cfg l s) = ''under_attack'')
         = isfile (snd (determine_target e cfg l s)) (ts_file cfg)"
  using assms
  by (auto simp add: store_ok_def determine_target_def time_now_def Let_def isfile_def write_file_def
        remove_file_def)

lemma determine_target_trace: "trace (snd (determine_target e cfg l s)) = trace s"
  by (simp add: determine_target_def time_now_def Let_def)

text \<open>The target computation does not look at the answer to the GET.\<close>

lemma get_response_irrelevant:
  "load_now (e\<lparr>get_response := g\<rparr>) = load_now e"
  "threshold (e\<lparr>get_response := g\<rparr>) cfg = threshold e cfg"
  "cooldown_seconds (e\<lparr>get_response := g\<rparr>) cfg = cooldown_seconds e cfg"
  "time_now (e\<lparr>get_response := g\<rparr>) s = time_now e s"
  "write_file (e\<lparr>get_response := g\<rparr>) p c s = write_file e p c s"
  "remove_file (e\<lparr>get_response := g\<rparr>) p s = remove_file e p s"
  by (simp_all add: threshold_def load_now_def load_threshold_def read_5min_load_def
        time_now_def write_file_def remove_file_def cooldown_seconds_def cooldown_hours_def Let_def
        cong: option.case_cong if_cong)

lemma determine_target_get_response:
  "determine_target (e\<lparr>get_response := g\<rparr>) cfg l s = determine_target e cfg l s"
  by (simp add: determine_target_def get_response_irrelevant Let_def case_prod_beta cong: if_cong)

lemma cf_get_mode_answer:
  "cf_get_mode (e\<lparr>get_response := (200, Body b (Some t))\<rparr>) = t"
  by (simp add: cf_get_mode_def)

text \<open>
  Computing the target again from the target, at the same time and load, gives the same
  target, provided a timestamp that held the mode the first time is still there.
\<close>

lemma determine_target_again:
  assumes "\<forall>i. clock e i = now"
    and "fst (determine_target e cfg l s) = t"
    and "\<not> threshold e cfg < load_now e \<and> l = ''under_attack'' \<and> isfile s (ts_file cfg)
         \<and> now - last_or_zero (read_file s (ts_file cfg)) < cooldown_seconds e cfg
         \<longrightarrow> files s' (ts_file cfg) = files s (ts_file cfg)"
  shows "fst (determine_target e cfg t s') = t"
  using assms
  by (auto simp add: determine_target_def time_now_def Let_def isfile_def read_file_def split: if_splits)

lemma synced_cache_read:
  assumes "store_ok e cfg" "strip (fst (synced e cfg fs)) = fst (synced e cfg fs)"
  shows "read_file (snd (synced e cfg fs)) (cache_file cfg) = fst (synced e cfg fs)"
proof (cases "cf_get_mode e = read_file (start fs) (cache_file cfg)")
  case True
  then show ?thesis by (simp add: synced_no_drift read_file_def start_def)
next
  case False
  have "files (snd (synced e cfg fs)) (cache_file cfg) = Some (cf_get_mode e)"
    using False assms(1) by (simp add: store_ok_def synced_drift Let_def send_alert_files_other)
  then show ?thesis
    using False assms(2) by (simp add: read_file_written synced_drift)
qed

text \<open>Unfolding sets for the example runs.\<close>

lemmas py_defs = strip_def is_space_def split_def lower_def lower_char_def str_int_def str_nat_unfold
  digit_char_def is_digit_def digit_val_def parse_nat_def py_int_def py_trunc_def float_defs

lemmas model_defs = main_def synced_def decided_def start_def emit_def time_now_def cfg_get_def
  cfg_get_cast_def falsy_def read_5min_load_def read_file_def write_file_def remove_file_def isfile_def
  cf_get_mode_def cf_set_mode_def last_or_zero_def can_alert_def record_alert_ts_def alert_slack_def
  alert_email_def alert_command_def alert_ts_file_def alert_cooldown_def alert_mode_def deliver_def
  send_alert_def load_threshold_def low_load_mode_def cache_file_def ts_file_def cooldown_hours_def
  cooldown_seconds_def load_now_def threshold_def mk_alert_def sync_cache_def determine_target_def
  apply_mode_def reaches_sync_def store_ok_def Let_def

lemmas example_defs = ex_cfg_def ex_float_def env_high_def env_high_fail_def env_low_def env_low_fail_def
  env_off_def env_unreachable_def env_7004_def env_noload_def fs_medium_def fs_attack_def ex_alert_def
  cfg_short_def fs_alerted_def fs_no_ts_def cfg_41_def env_41_def cfg_6996_def env_6996_def
  cfg_plain_def env_plain_def cfg_12_def env_12_def fs_alerted_71_def

section \<open>Remote read failure\<close>

text \<open>
  C6. If the current remote mode cannot be retrieved at the start of a run
  (\<open>cf_get_mode\<close> returns the empty string: a status other than 200, a body that is
  not an object, or no value in it), the run returns exit status 2 right after the GET:
  nothing but the GET and the error line happens, the clock is not read, and the files are
  exactly those the run started with.
\<close>

theorem get_failure_aborts_run:
  assumes "config e = Some cfg" "\<not> falsy (cfg ''ZONE_ID'')" "\<not> falsy (cfg ''CF_API_TOKEN'')"
    and "cf_get_mode e = []"
  shows "main e fs = (2, \<lparr>files = fs, ticks = 0, trace = [HttpGet, Print GetModeFailed]\<rparr>)"
  using assms by (simp add: main_def start_def emit_def)

text \<open>The API cannot be reached (status 0): exit status 2, cache file untouched.\<close>

theorem get_failure_aborts_run_witness:
  "cf_get_mode env_unreachable = []
   \<and> main env_unreachable fs_medium
       = (2, \<lparr>files = fs_medium, ticks = 0, trace = [HttpGet, Print GetModeFailed]\<rparr>)"
  using get_failure_aborts_run[of env_unreachable ex_cfg fs_medium]
  by (simp add: model_defs example_defs py_defs)

section \<open>Remote write failure\<close>

text \<open>
  C1 as stated does not hold: the timestamp file is written (line 302) or removed
  (line 313) while the target is computed, before the PATCH is attempted. With the cache
  and the zone at \<open>medium\<close>, load 9.30 against threshold 7.0 and a PATCH answered with
  status 500, the target \<open>under_attack\<close> differs from the cached mode, the call fails,
  and the timestamp file, absent before the run, holds the time of the run afterwards.
\<close>

theorem set_failure_counterexample:
  "fst (decided env_high_fail ex_cfg fs_medium) \<noteq> fst (synced env_high_fail ex_cfg fs_medium)
   \<and> \<not> snd (cf_set_mode env_high_fail (fst (decided env_high_fail ex_cfg fs_medium)))
   \<and> fst (main env_high_fail fs_medium) = 0
   \<and> fs_medium (ts_file ex_cfg) = None
   \<and> files (snd (main env_high_fail fs_medium)) (ts_file ex_cfg) = Some ''1000000''"
  by (simp add: model_defs example_defs py_defs round2_examples)

text \<open>
  C1, amended. If the computed target mode differs from the cached mode (as it is after
  the cache sync) and the remote setMode call fails, then the run returns exit status 0,
  and applying the mode change does nothing but print the attempt, send the PATCH and
  print the failure: the files and the alerts are those left by the target computation.
  So from the cache sync on no file other than the timestamp file has changed; the
  timestamp file may have been written or removed by the target computation.
\<close>

theorem set_failure_changes_nothing_more:
  assumes "reaches_sync e cfg"
    and "synced e cfg fs = (last_mode, s)"
    and "determine_target e cfg last_mode s = (target_mode, s')"
    and "target_mode \<noteq> last_mode"
    and "\<not> snd (cf_set_mode e target_mode)"
  shows "main e fs =
           (0, s'\<lparr>trace := trace s' @ [Print (SettingLevel target_mode), HttpPatch target_mode,
                                       Print (ApiFailed (fst (cf_set_mode e target_mode)))]\<rparr>)
       \<and> (\<forall>p. p \<noteq> ts_file cfg \<longrightarrow> files (snd (main e fs)) p = files s p)"
proof -
  have m: "main e fs = (0, apply_mode e cfg target_mode last_mode s')"
    using assms(1-3) by (simp add: main_reached decided_eq)
  have f: "\<And>p. p \<noteq> ts_file cfg \<Longrightarrow> files s' p = files s p"
    using determine_target_files_other[of _ cfg e last_mode s] assms(3) by simp
  show ?thesis
    using m f assms(4,5) by (simp add: apply_mode_failed)
qed

text \<open>The run of the counterexample: exit status 0, the cache file still \<open>medium\<close>, no alert.\<close>

theorem set_failure_changes_nothing_more_witness:
  "main env_high_fail fs_medium =
     (0, \<lparr>files = fs_medium(''/tmp/cf_under_attack_timestamp'' \<mapsto> ''1000000''), ticks = 1,
          trace = [HttpGet, Print (SettingLevel ''under_attack''), HttpPatch ''under_attack'',
                   Print (ApiFailed 500)]\<rparr>)
   \<and> files (snd (main env_high_fail fs_medium)) ''/tmp/cf_mode_cache'' = Some ''medium''"
  using set_failure_changes_nothing_more[of env_high_fail ex_cfg fs_medium "''medium''"
      "\<lparr>files = fs_medium, ticks = 0, trace = [HttpGet]\<rparr>" "''under_attack''"
      "\<lparr>files = fs_medium(''/tmp/cf_under_attack_timestamp'' \<mapsto> ''1000000''), ticks = 1, trace = [HttpGet]\<rparr>"]
  by (simp add: model_defs example_defs py_defs round2_examples)

section \<open>Hysteresis\<close>

text \<open>
  C2 as stated does not hold for the configured cooldown: the code compares the elapsed
  time with \<open>int(cooldown_hours * 3600)\<close>, the product of two doubles truncated to
  whole seconds. With a cooldown of 4.1 hours (14760 seconds), the cache and the zone at
  \<open>under_attack\<close>, the mode entered 14759 seconds ago and load 1.00, the elapsed
  time is less than the cooldown, yet \<open>int(4.1 * 3600) = 14759\<close> and the run
  leaves \<open>under_attack\<close>: the target is \<open>medium\<close> and the PATCH is sent.
\<close>

theorem hysteresis_counterexample:
  "synced env_41 cfg_41 (fs_attack ''985241'')
     = (''under_attack'', \<lparr>files = fs_attack ''985241'', ticks = 0, trace = [HttpGet]\<rparr>)
   \<and> isfile (start (fs_attack ''985241'')) (ts_file cfg_41)
   \<and> \<not> threshold env_41 cfg_41 < load_now env_41
   \<and> of_int (clock env_41 0 - last_or_zero (read_file (start (fs_attack ''985241'')) (ts_file cfg_41)))
       < cooldown_hours env_41 cfg_41 * 3600
   \<and> fst (decided env_41 cfg_41 (fs_attack ''985241'')) = ''medium''
   \<and> trace (snd (main env_41 (fs_attack ''985241''))) =
       [HttpGet, Print (SettingLevel ''medium''), HttpPatch ''medium'',
        SlackPost ''https://hooks.example/T1'' True (ex_alert Exited ''medium'' 1)]"
  by (simp add: model_defs example_defs py_defs round2_examples)

text \<open>
  C2, amended. For every run where the cached mode (after the cache sync) is
  \<open>under_attack\<close>, the timestamp file is present and the rounded load does not
  exceed the rounded threshold, with \<open>now\<close> the clock read of line 308,
  \<open>activatedAt\<close> the number in the timestamp file (0 when it is not a number) and
  the cooldown in whole seconds, \<open>int(cooldown_hours * 3600)\<close>:
  if \<open>now - activatedAt < int(cooldown_hours * 3600)\<close>, the target stays
  \<open>under_attack\<close> and the run ends with exit status 0 in the state the cache sync
  left, but for the clock read: no PATCH, no alert and no change to any file;
  if \<open>now - activatedAt \<ge> int(cooldown_hours * 3600)\<close>, the target is the
  configured normal mode and the timestamp file is removed (when it can be removed), and it
  is still absent at the end of the run when it is a path of its own.
\<close>

theorem hysteresis_holds_then_releases:
  assumes "reaches_sync e cfg"
    and "synced e cfg fs = (''under_attack'', s)"
    and "isfile s (ts_file cfg)"
    and "\<not> threshold e cfg < load_now e"
  shows "(clock e (ticks s) - last_or_zero (read_file s (ts_file cfg)) < cooldown_seconds e cfg \<longrightarrow>
            fst (decided e cfg fs) = ''under_attack''
          \<and> main e fs = (0, s\<lparr>ticks := Suc (ticks s)\<rparr>))
       \<and> (cooldown_seconds e cfg \<le> clock e (ticks s) - last_or_zero (read_file s (ts_file cfg)) \<longrightarrow>
            fst (decided e cfg fs) = low_load_mode cfg
          \<and> (\<not> denied e (ts_file cfg) \<longrightarrow> \<not> isfile (snd (decided e cfg fs)) (ts_file cfg))
          \<and> (\<not> denied e (ts_file cfg) \<and> ts_file cfg \<noteq> cache_file cfg
              \<and> ts_file cfg \<noteq> alert_ts_file cfg \<longrightarrow>
                \<not> isfile (snd (main e fs)) (ts_file cfg)))"
  using assms
  by (auto simp add: main_reached decided_eq determine_target_def time_now_def Let_def
        isfile_def apply_mode_files_other apply_mode_same)

text \<open>
  Scenarios B and C of the specification: cooldown 3 hours, load 1.00, the mode entered
  7200 seconds ago (nothing happens) and 11000 seconds ago (the target is \<open>medium\<close> and
  the timestamp file is gone). And a cooldown of 1.2 hours, which is 4320 seconds: 4319
  seconds after the mode was entered nothing happens.
\<close>

theorem hysteresis_holds_then_releases_witness:
  "main env_low (fs_attack ''992800'') = (0, \<lparr>files = fs_attack ''992800'', ticks = 1, trace = [HttpGet]\<rparr>)
   \<and> fst (decided env_low ex_cfg (fs_attack ''989000'')) = ''medium''
   \<and> \<not> isfile (snd (main env_low (fs_attack ''989000''))) ''/tmp/cf_under_attack_timestamp''
   \<and> cooldown_seconds env_12 cfg_12 = 4320
   \<and> main env_12 (fs_attack ''995681'') = (0, \<lparr>files = fs_attack ''995681'', ticks = 1, trace = [HttpGet]\<rparr>)"
  using hysteresis_holds_then_releases[of env_low ex_cfg "fs_attack ''992800''"
          "\<lparr>files = fs_attack ''992800'', ticks = 0, trace = [HttpGet]\<rparr>"]
        hysteresis_holds_then_releases[of env_low ex_cfg "fs_attack ''989000''"
          "\<lparr>files = fs_attack ''989000'', ticks = 0, trace = [HttpGet]\<rparr>"]
        hysteresis_holds_then_releases[of env_12 cfg_12 "fs_attack ''995681''"
          "\<lparr>files = fs_attack ''995681'', ticks = 0, trace = [HttpGet]\<rparr>"]
  by (simp add: model_defs example_defs py_defs round2_examples)

section \<open>Drift detection\<close>

text \<open>
  C3 as stated does not hold for the alert: \<open>send_alert\<close> returns at once
  when \<open>ALERT_MODE\<close> is \<open>none\<close>, which is the default, and inside the alert
  cooldown. With only the zone and the token configured, the cache at
  \<open>under_attack\<close> and the zone set to \<open>essentially_off\<close> by hand, the run
  syncs the cache and removes the timestamp, and fires no alert, neither for the manual
  change nor for the mode change that follows.
\<close>

theorem drift_alert_counterexample:
  "reaches_sync env_plain cfg_plain \<and> store_ok env_plain cfg_plain
   \<and> cf_get_mode env_plain \<noteq> read_file (start (fs_attack ''992800'')) (cache_file cfg_plain)
   \<and> trace (snd (synced env_plain cfg_plain (fs_attack ''992800''))) =
       [HttpGet, Print (SyncingCache ''under_attack'' ''essentially_off'')]
   \<and> trace (snd (main env_plain (fs_attack ''992800''))) =
       [HttpGet, Print (SyncingCache ''under_attack'' ''essentially_off''),
        Print (SettingLevel ''medium''), HttpPatch ''medium'']"
  by (simp add: model_defs example_defs py_defs round2_examples)

text \<open>
  C3, amended. For every run where the fetched actual mode differs from the cached mode,
  on a working state store: the cache sync, which runs before the target is computed,
  makes the actual mode the cached mode and writes it to the cache file; it writes the
  time of the clock read of line 289 to the timestamp file if the actual mode is
  \<open>under_attack\<close> and removes the timestamp file otherwise; and it hands the alert
  of the manual change (into \<open>under_attack\<close> or to another mode) to
  \<open>send_alert\<close>. The alert is fired when the alert mode is not \<open>none\<close>,
  the alert cooldown is over (or no alert timestamp file is configured) and the channel
  has its parameters: the sync then ends with the Slack post, the sendmail or mail call,
  or the command, carrying that alert. With the alert mode \<open>none\<close> or inside the
  alert cooldown the sync fires nothing. The target is then computed from the actual mode
  and the synced state.
\<close>

theorem drift_syncs_cache_first:
  assumes "reaches_sync e cfg" "store_ok e cfg"
    and "cf_get_mode e \<noteq> read_file (start fs) (cache_file cfg)"
  shows "fst (synced e cfg fs) = cf_get_mode e
       \<and> files (snd (synced e cfg fs)) (cache_file cfg) = Some (cf_get_mode e)
       \<and> files (snd (synced e cfg fs)) (ts_file cfg) =
           (if cf_get_mode e = ''under_attack'' then Some (str_int (clock e 0)) else None)
       \<and> snd (synced e cfg fs) =
           send_alert e cfg
             (mk_alert e cfg (if cf_get_mode e = ''under_attack'' then ManualOn else ManualOff) (cf_get_mode e))
             \<lparr>files = (if cf_get_mode e = ''under_attack''
                       then (fs(cache_file cfg \<mapsto> cf_get_mode e))(ts_file cfg \<mapsto> str_int (clock e 0))
                       else (fs(cache_file cfg \<mapsto> cf_get_mode e))(ts_file cfg := None)),
              ticks = (if cf_get_mode e = ''under_attack'' then 1 else 0),
              trace = [HttpGet, Print (SyncingCache (read_file (start fs) (cache_file cfg)) (cf_get_mode e))]\<rparr>
       \<and> main e fs =
           (case determine_target e cfg (cf_get_mode e) (snd (synced e cfg fs)) of
              (target_mode, s') \<Rightarrow> (0, apply_mode e cfg target_mode (cf_get_mode e) s'))
       \<and> (let pre = [HttpGet, Print (SyncingCache (read_file (start fs) (cache_file cfg)) (cf_get_mode e))];
              a = mk_alert e cfg (if cf_get_mode e = ''under_attack'' then ManualOn else ManualOff) (cf_get_mode e);
              elapsed = clock e (if cf_get_mode e = ''under_attack'' then 1 else 0)
                          - last_or_zero (read_file (start fs) (alert_ts_file cfg));
              due = (alert_ts_file cfg = [] \<or> py_trunc (fmul (alert_cooldown e cfg) 60) \<le> elapsed)
          in (alert_mode cfg = ''none'' \<or> \<not> due \<longrightarrow> trace (snd (synced e cfg fs)) = pre)
           \<and> (due \<and> alert_mode cfg = ''slack'' \<and> cfg_get cfg ''ALERT_SLACK_WEBHOOK'' [] \<noteq> [] \<longrightarrow>
                trace (snd (synced e cfg fs)) =
                  pre @ [SlackPost (cfg_get cfg ''ALERT_SLACK_WEBHOOK'' [])
                           (lower (cfg_get cfg ''ALERT_SLACK_USE_BLOCKS'' ''true'') = ''true'') a])
           \<and> (due \<and> alert_mode cfg = ''email'' \<and> cfg_get cfg ''ALERT_EMAIL_TO'' [] \<noteq> []
                \<and> has_sendmail e \<longrightarrow>
                trace (snd (synced e cfg fs)) =
                  pre @ [Sendmail (cfg_get cfg ''ALERT_EMAIL_TO'' [])
                           (cfg_get cfg ''ALERT_EMAIL_FROM'' (''cf-guard@'' @ hostname e))
                           ((if cfg_get cfg ''ALERT_EMAIL_SUBJECT_PREFIX'' ''[CF Guard]'' = [] then ''[CF Guard]''
                             else cfg_get cfg ''ALERT_EMAIL_SUBJECT_PREFIX'' ''[CF Guard]'') @ '' Notification'') a])
           \<and> (due \<and> alert_mode cfg = ''email'' \<and> cfg_get cfg ''ALERT_EMAIL_TO'' [] \<noteq> []
                \<and> \<not> has_sendmail e \<and> has_mail e \<longrightarrow>
                trace (snd (synced e cfg fs)) =
                  pre @ [MailCmd (cfg_get cfg ''ALERT_EMAIL_TO'' [])
                           (cfg_get cfg ''ALERT_EMAIL_FROM'' (''cf-guard@'' @ hostname e))
                           ((if cfg_get cfg ''ALERT_EMAIL_SUBJECT_PREFIX'' ''[CF Guard]'' = [] then ''[CF Guard]''
                             else cfg_get cfg ''ALERT_EMAIL_SUBJECT_PREFIX'' ''[CF Guard]'') @ '' Notification'') a])
           \<and> (due \<and> alert_mode cfg = ''command'' \<and> cfg_get cfg ''ALERT_COMMAND'' [] \<noteq> [] \<longrightarrow>
                trace (snd (synced e cfg fs)) = pre @ [ShellCommand (cfg_get cfg ''ALERT_COMMAND'' []) a]))"
proof -
  let ?a = "cf_get_mode e"
  let ?pre = "[HttpGet, Print (SyncingCache (read_file (start fs) (cache_file cfg)) ?a)]"
  let ?al = "mk_alert e cfg (if ?a = ''under_attack'' then ManualOn else ManualOff) ?a"
  let ?k = "if ?a = ''under_attack'' then 1 else (0::nat)"
  let ?s0 = "\<lparr>files = (if ?a = ''under_attack''
                       then (fs(cache_file cfg \<mapsto> ?a))(ts_file cfg \<mapsto> str_int (clock e 0))
                       else (fs(cache_file cfg \<mapsto> ?a))(ts_file cfg := None)),
              ticks = ?k, trace = ?pre\<rparr>"
  let ?el = "clock e ?k - last_or_zero (read_file (start fs) (alert_ts_file cfg))"
  let ?due = "alert_ts_file cfg = [] \<or> py_trunc (fmul (alert_cooldown e cfg) 60) \<le> ?el"
  note ok = assms(2)[unfolded store_ok_def]
  note sym = store_ok_sym[OF assms(2)]
  have sy: "fst (synced e cfg fs) = ?a"
    using assms(3) by (simp add: synced_drift)
  have c: "files (snd (synced e cfg fs)) (cache_file cfg) = Some ?a"
    using assms(3) ok by (simp add: synced_drift Let_def send_alert_files_other)
  have t: "files (snd (synced e cfg fs)) (ts_file cfg) =
           (if ?a = ''under_attack'' then Some (str_int (clock e 0)) else None)"
    using assms(3) ok by (simp add: synced_drift Let_def send_alert_files_other)
  have rm: "remove_file e (ts_file cfg) sa = sa\<lparr>files := (files sa)(ts_file cfg := None)\<rparr>" for sa
    using ok by (cases "files sa (ts_file cfg)") (simp_all add: remove_file_def fun_upd_idem)
  have a: "snd (synced e cfg fs) = send_alert e cfg ?al ?s0"
    using assms(3) ok by (simp add: synced_drift Let_def rm write_file_def)
  have m: "main e fs =
           (case determine_target e cfg ?a (snd (synced e cfg fs)) of
              (target_mode, s') \<Rightarrow> (0, apply_mode e cfg target_mode ?a s'))"
    using assms(1) sy by (simp add: main_reached decided_def case_prod_beta)
  have rd: "read_file ?s0 (alert_ts_file cfg) = read_file (start fs) (alert_ts_file cfg)"
    using sym by (simp add: read_file_def start_def)
  have tk: "ticks ?s0 = ?k" and tr: "trace ?s0 = ?pre"
    by simp_all
  have quiet: "trace (snd (synced e cfg fs)) = ?pre" if "alert_mode cfg = ''none'' \<or> \<not> ?due"
  proof (cases "alert_mode cfg = ''none''")
    case True
    then show ?thesis by (simp add: a send_alert_none)
  next
    case False
    then have h: "alert_ts_file cfg \<noteq> []" "?el < py_trunc (fmul (alert_cooldown e cfg) 60)"
      using that by auto
    have "trace (send_alert e cfg ?al ?s0) = trace ?s0"
    proof (rule send_alert_trace_closed)
      show "alert_ts_file cfg \<noteq> []" by (rule h(1))
      show "clock e (ticks ?s0) - last_or_zero (read_file ?s0 (alert_ts_file cfg))
            < py_trunc (fmul (alert_cooldown e cfg) 60)"
        using h(2) by (simp only: rd tk)
    qed
    then show ?thesis by (simp only: a tr)
  qed
  have fired: "trace (snd (synced e cfg fs)) = trace (deliver e cfg ?al ?s0)"
    if "?due" "alert_mode cfg \<noteq> ''none''"
  proof -
    have "trace (send_alert e cfg ?al ?s0) = trace (deliver e cfg ?al ?s0)"
    proof (rule send_alert_trace_due)
      show "alert_mode cfg \<noteq> ''none''" by (rule that(2))
      show "alert_ts_file cfg = []
            \<or> py_trunc (fmul (alert_cooldown e cfg) 60)
                \<le> clock e (ticks ?s0) - last_or_zero (read_file ?s0 (alert_ts_file cfg))"
        using that(1) by (simp only: rd tk)
    qed
    then show ?thesis by (simp only: a)
  qed
  have slack: "trace (snd (synced e cfg fs)) =
                  ?pre @ [SlackPost (cfg_get cfg ''ALERT_SLACK_WEBHOOK'' [])
                           (lower (cfg_get cfg ''ALERT_SLACK_USE_BLOCKS'' ''true'') = ''true'') ?al]"
    if "?due" "alert_mode cfg = ''slack''" "cfg_get cfg ''ALERT_SLACK_WEBHOOK'' [] \<noteq> []"
    using that fired by (simp only: deliver_slack[OF that(2,3)] tr) simp
  have sendmail: "trace (snd (synced e cfg fs)) =
                  ?pre @ [Sendmail (cfg_get cfg ''ALERT_EMAIL_TO'' [])
                           (cfg_get cfg ''ALERT_EMAIL_FROM'' (''cf-guard@'' @ hostname e))
                           ((if cfg_get cfg ''ALERT_EMAIL_SUBJECT_PREFIX'' ''[CF Guard]'' = [] then ''[CF Guard]''
                             else cfg_get cfg ''ALERT_EMAIL_SUBJECT_PREFIX'' ''[CF Guard]'') @ '' Notification'') ?al]"
    if "?due" "alert_mode cfg = ''email''" "cfg_get cfg ''ALERT_EMAIL_TO'' [] \<noteq> []" "has_sendmail e"
    using that fired by (simp only: deliver_sendmail[OF that(2,3,4)] tr) simp
  have mail: "trace (snd (synced e cfg fs)) =
                  ?pre @ [MailCmd (cfg_get cfg ''ALERT_EMAIL_TO'' [])
                           (cfg_get cfg ''ALERT_EMAIL_FROM'' (''cf-guard@'' @ hostname e))
                           ((if cfg_get cfg ''ALERT_EMAIL_SUBJECT_PREFIX'' ''[CF Guard]'' = [] then ''[CF Guard]''
                             else cfg_get cfg ''ALERT_EMAIL_SUBJECT_PREFIX'' ''[CF Guard]'') @ '' Notification'') ?al]"
    if "?due" "alert_mode cfg = ''email''" "cfg_get cfg ''ALERT_EMAIL_TO'' [] \<noteq> []"
       "\<not> has_sendmail e" "has_mail e"
    using that fired by (simp only: deliver_mail[OF that(2,3,4,5)] tr) simp
  have command: "trace (snd (synced e cfg fs)) = ?pre @ [ShellCommand (cfg_get cfg ''ALERT_COMMAND'' []) ?al]"
    if "?due" "alert_mode cfg = ''command''" "cfg_get cfg ''ALERT_COMMAND'' [] \<noteq> []"
    using that fired by (simp only: deliver_command[OF that(2,3)] tr) simp
  show ?thesis
    unfolding Let_def
    using sy c t a m quiet slack sendmail mail command by blast
qed

text \<open>
  Scenario D of the specification with the Slack channel and no alert recorded: the cache
  says \<open>under_attack\<close>, the operator has set the zone to \<open>essentially_off\<close>,
  and the manual-change alert is posted.
\<close>

theorem drift_syncs_cache_first_witness:
  "fst (synced env_off ex_cfg (fs_attack ''992800'')) = ''essentially_off''
   \<and> files (snd (synced env_off ex_cfg (fs_attack ''992800''))) ''/tmp/cf_mode_cache'' = Some ''essentially_off''
   \<and> files (snd (synced env_off ex_cfg (fs_attack ''992800''))) ''/tmp/cf_under_attack_timestamp'' = None
   \<and> trace (snd (synced env_off ex_cfg (fs_attack ''992800''))) =
        [HttpGet, Print (SyncingCache ''under_attack'' ''essentially_off''),
         SlackPost ''https://hooks.example/T1'' True (ex_alert ManualOff ''essentially_off'' 1)]"
  using drift_syncs_cache_first[of env_off ex_cfg "fs_attack ''992800''"]
  by (simp add: model_defs example_defs py_defs round2_examples)

section \<open>Monotonic entry\<close>

text \<open>
  C4 as stated does not hold for the sampled load and the configured threshold: the code
  compares the two after rounding each to two decimal places. With a threshold of 6.996
  and a sampled load of 7.00 the load exceeds the threshold, both round to 7.0, and the
  run from \<open>medium\<close> computes the target \<open>medium\<close>, stamps nothing and
  does nothing but the GET.
\<close>

theorem rounded_entry_counterexample:
  "load_threshold env_6996 cfg_6996 < read_5min_load env_6996
   \<and> fst (decided env_6996 cfg_6996 fs_medium) = ''medium''
   \<and> main env_6996 fs_medium = (0, \<lparr>files = fs_medium, ticks = 0, trace = [HttpGet]\<rparr>)"
  by (simp add: model_defs example_defs py_defs round2_examples round2_6996)

text \<open>
  C4, amended. For every run where the load rounded to two decimal places exceeds the
  threshold rounded to two decimal places, the target mode is \<open>under_attack\<close>
  whatever the cached mode and the timestamp are, so also when a cooldown has run out. The
  target computation stamps the timestamp file with the time of the clock read of line
  302 when the cached mode (after the cache sync) is not \<open>under_attack\<close>,
  provided the file can be written, and it changes nothing when the cached mode is
  \<open>under_attack\<close> already.
\<close>

theorem high_load_enters_under_attack:
  assumes "reaches_sync e cfg"
    and "synced e cfg fs = (last_mode, s)"
    and "threshold e cfg < load_now e"
  shows "fst (decided e cfg fs) = ''under_attack''
       \<and> main e fs = (0, apply_mode e cfg ''under_attack'' last_mode (snd (decided e cfg fs)))
       \<and> (last_mode \<noteq> ''under_attack'' \<and> ts_file cfg \<noteq> [] \<and> \<not> denied e (ts_file cfg) \<longrightarrow>
            snd (decided e cfg fs) =
              s\<lparr>files := (files s)(ts_file cfg \<mapsto> str_int (clock e (ticks s))), ticks := Suc (ticks s)\<rparr>)
       \<and> (last_mode = ''under_attack'' \<longrightarrow> snd (decided e cfg fs) = s)"
  using assms
  by (simp add: main_reached decided_eq determine_target_def time_now_def write_file_def)

text \<open>
  Load 9.30 against 7.0: from \<open>medium\<close> the timestamp is stamped; from
  \<open>under_attack\<close> with a timestamp long past the cooldown nothing is touched and the
  target is still \<open>under_attack\<close>.
\<close>

theorem high_load_enters_under_attack_witness:
  "fst (decided env_high ex_cfg fs_medium) = ''under_attack''
   \<and> files (snd (decided env_high ex_cfg fs_medium)) ''/tmp/cf_under_attack_timestamp'' = Some ''1000000''
   \<and> decided (env_high\<lparr>get_response := (200, Body True (Some ''under_attack''))\<rparr>) ex_cfg (fs_attack ''5'')
       = (''under_attack'', \<lparr>files = fs_attack ''5'', ticks = 0, trace = [HttpGet]\<rparr>)"
  using high_load_enters_under_attack[of env_high ex_cfg fs_medium "''medium''"
          "\<lparr>files = fs_medium, ticks = 0, trace = [HttpGet]\<rparr>"]
        high_load_enters_under_attack[of "env_high\<lparr>get_response := (200, Body True (Some ''under_attack''))\<rparr>"
          ex_cfg "fs_attack ''5''" "''under_attack''" "\<lparr>files = fs_attack ''5'', ticks = 0, trace = [HttpGet]\<rparr>"]
  by (simp add: model_defs example_defs py_defs round2_examples)

section \<open>Alert rate limiting\<close>

text \<open>
  C8 as stated does not hold: the code compares \<open>now - last\<close> with
  \<open>int(cooldown_min * 60)\<close>, the product of two doubles truncated to whole
  seconds. With a cooldown of 0.01 minutes (0.6 seconds) and an alert recorded in the same
  second, \<open>now - lastAlertAt = 0 < cooldownMinutes * 60\<close>, yet
  \<open>int(0.01 * 60) = 0\<close> and the alert is delivered.
\<close>

theorem alert_cooldown_counterexample:
  "alert_mode cfg_short \<noteq> ''none''
   \<and> of_int (clock env_high (ticks (start fs_alerted))
        - last_or_zero (read_file (start fs_alerted) (alert_ts_file cfg_short)))
       < alert_cooldown env_high cfg_short * 60
   \<and> trace (send_alert env_high cfg_short (ex_alert Entered ''under_attack'' 9) (start fs_alerted))
       = [SlackPost ''https://hooks.example/T1'' True (ex_alert Entered ''under_attack'' 9)]"
  by (simp add: model_defs example_defs py_defs)

text \<open>
  C8, amended. For every alert dispatch with a channel other than \<open>none\<close> and an
  alert timestamp file configured that holds ASCII text (as the program writes it), with
  \<open>lastAlertAt\<close> the number in that file (0 when it is absent or not a number) and
  \<open>now\<close> the clock read of \<open>can_alert\<close>:
  if \<open>now - lastAlertAt < int(cooldownMinutes * 60)\<close> the call changes no file and
  delivers nothing; otherwise the channel's delivery routine runs, which makes exactly
  one delivery attempt when the channel has its parameters, and the time read after it is
  written to the alert timestamp file (when that file can be written) whatever became of
  the delivery. So a second dispatch whose clock read is less than
  \<open>int(cooldownMinutes * 60)\<close> seconds after the recorded time delivers nothing and
  leaves the recorded time as it is.
\<close>

theorem alert_cooldown_in_whole_seconds:
  assumes "alert_mode cfg \<noteq> ''none''" "alert_ts_file cfg \<noteq> []"
    and "ascii_file s (alert_ts_file cfg)"
  shows "(clock e (ticks s) - last_or_zero (read_file s (alert_ts_file cfg))
            < py_trunc (fmul (alert_cooldown e cfg) 60) \<longrightarrow>
            send_alert e cfg a s = s\<lparr>ticks := Suc (ticks s)\<rparr>)
       \<and> (py_trunc (fmul (alert_cooldown e cfg) 60)
            \<le> clock e (ticks s) - last_or_zero (read_file s (alert_ts_file cfg)) \<longrightarrow>
            trace (send_alert e cfg a s) = trace (deliver e cfg a s)
          \<and> (channel_ready e cfg \<longrightarrow> length (trace (send_alert e cfg a s)) = Suc (length (trace s)))
          \<and> (\<not> denied e (alert_ts_file cfg) \<longrightarrow>
                files (send_alert e cfg a s)
                  = (files s)(alert_ts_file cfg \<mapsto> str_int (clock e (Suc (ticks s))))
              \<and> (clock e (Suc (Suc (ticks s))) - clock e (Suc (ticks s))
                    < py_trunc (fmul (alert_cooldown e cfg) 60) \<longrightarrow>
                    trace (send_alert e cfg b (send_alert e cfg a s)) = trace (send_alert e cfg a s)
                  \<and> files (send_alert e cfg b (send_alert e cfg a s)) = files (send_alert e cfg a s))))"
proof -
  let ?p = "alert_ts_file cfg"
  let ?cd = "py_trunc (fmul (alert_cooldown e cfg) 60)"
  let ?s1 = "send_alert e cfg a s"
  have sup: "send_alert e cfg a s = s\<lparr>ticks := Suc (ticks s)\<rparr>"
    if "clock e (ticks s) - last_or_zero (read_file s ?p) < ?cd"
    using assms(1,2) that by (rule send_alert_suppressed)
  have pass: "trace ?s1 = trace (deliver e cfg a s)
      \<and> (channel_ready e cfg \<longrightarrow> length (trace ?s1) = Suc (length (trace s)))
      \<and> (\<not> denied e ?p \<longrightarrow>
            files ?s1 = (files s)(?p \<mapsto> str_int (clock e (Suc (ticks s))))
          \<and> (clock e (Suc (Suc (ticks s))) - clock e (Suc (ticks s)) < ?cd \<longrightarrow>
                trace (send_alert e cfg b ?s1) = trace ?s1
              \<and> files (send_alert e cfg b ?s1) = files ?s1))"
    if ge: "?cd \<le> clock e (ticks s) - last_or_zero (read_file s ?p)"
  proof -
    have eq: "?s1 = record_alert_ts e ?p (deliver e cfg a (s\<lparr>ticks := Suc (ticks s)\<rparr>))"
      using assms(1,2) ge by (rule send_alert_passed)
    have tr: "trace ?s1 = trace (deliver e cfg a s)"
      by (simp add: eq deliver_ticks_upd)
    have one: "length (trace ?s1) = Suc (length (trace s))" if "channel_ready e cfg"
      using that by (simp add: tr deliver_trace_ready)
    have wr: "files ?s1 = (files s)(?p \<mapsto> str_int (clock e (Suc (ticks s))))
          \<and> (clock e (Suc (Suc (ticks s))) - clock e (Suc (ticks s)) < ?cd \<longrightarrow>
                trace (send_alert e cfg b ?s1) = trace ?s1
              \<and> files (send_alert e cfg b ?s1) = files ?s1)"
      if nd: "\<not> denied e ?p"
    proof -
      have full: "?s1 = (deliver e cfg a s)\<lparr>files := (files s)(?p \<mapsto> str_int (clock e (Suc (ticks s)))),
                                            ticks := Suc (Suc (ticks s))\<rparr>"
        using assms(2) nd by (simp add: eq deliver_ticks_upd record_alert_ts_written)
      have f: "files ?s1 = (files s)(?p \<mapsto> str_int (clock e (Suc (ticks s))))"
        by (simp add: full)
      have tk: "ticks ?s1 = Suc (Suc (ticks s))"
        by (simp add: full)
      have rd: "last_or_zero (read_file ?s1 ?p) = clock e (Suc (ticks s))"
        by (simp add: read_file_def f last_or_zero_str_int)
      have second: "send_alert e cfg b ?s1 = ?s1\<lparr>ticks := Suc (ticks ?s1)\<rparr>"
        if "clock e (Suc (Suc (ticks s))) - clock e (Suc (ticks s)) < ?cd"
        using assms(1,2) that by (intro send_alert_suppressed) (simp_all add: rd tk)
      show ?thesis using f second by simp
    qed
    show ?thesis using tr one wr by blast
  qed
  show ?thesis using sup pass by blast
qed

text \<open>
  With the default cooldown of 30 minutes: an alert recorded in the same second
  suppresses the dispatch; with no alert recorded the message goes to Slack and the time
  is recorded; and a second dispatch right after it adds nothing. With a cooldown of 1.2
  minutes, which is 72 seconds, a dispatch 71 seconds after the recorded alert is
  suppressed.
\<close>

theorem alert_cooldown_in_whole_seconds_witness:
  "send_alert env_high ex_cfg (ex_alert Entered ''under_attack'' 9) (start fs_alerted)
     = \<lparr>files = fs_alerted, ticks = 1, trace = []\<rparr>
   \<and> trace (send_alert env_high ex_cfg (ex_alert Entered ''under_attack'' 9) (start Map.empty))
     = [SlackPost ''https://hooks.example/T1'' True (ex_alert Entered ''under_attack'' 9)]
   \<and> files (send_alert env_high ex_cfg (ex_alert Entered ''under_attack'' 9) (start Map.empty))
     = fs_alerted
   \<and> trace (send_alert env_high ex_cfg (ex_alert Exited ''medium'' 1)
        (send_alert env_high ex_cfg (ex_alert Entered ''under_attack'' 9) (start Map.empty)))
     = [SlackPost ''https://hooks.example/T1'' True (ex_alert Entered ''under_attack'' 9)]
   \<and> send_alert env_12 cfg_12 (ex_alert Entered ''under_attack'' 9) (start fs_alerted_71)
     = \<lparr>files = fs_alerted_71, ticks = 1, trace = []\<rparr>"
  using alert_cooldown_in_whole_seconds[where cfg = ex_cfg and e = env_high and s = "start fs_alerted"
          and a = "ex_alert Entered ''under_attack'' 9"]
        alert_cooldown_in_whole_seconds[where cfg = ex_cfg and e = env_high and s = "start Map.empty"
          and a = "ex_alert Entered ''under_attack'' 9" and b = "ex_alert Exited ''medium'' 1"]
        alert_cooldown_in_whole_seconds[where cfg = cfg_12 and e = env_12 and s = "start fs_alerted_71"
          and a = "ex_alert Entered ''under_attack'' 9"]
  by (simp add: model_defs example_defs py_defs channel_ready_def ascii_file_def)

section \<open>Rounding of the load and the threshold\<close>

text \<open>
  C9. The load is compared with the threshold after each has been rounded to two decimal
  places: when the rounded load exceeds the rounded threshold the target is
  \<open>under_attack\<close>, and when it does not, a run whose cached mode is not
  \<open>under_attack\<close> gets the normal mode and touches nothing, whatever the raw values
  are. There are inputs whose raw load is strictly greater than the raw threshold for
  which the rounded comparison does not trigger \<open>under_attack\<close>.
\<close>

theorem comparison_uses_rounded_values:
  "(round2 (load_threshold e cfg) < round2 (read_5min_load e) \<longrightarrow>
      fst (determine_target e cfg last_mode s) = ''under_attack'')
   \<and> (\<not> round2 (load_threshold e cfg) < round2 (read_5min_load e) \<and> last_mode \<noteq> ''under_attack'' \<longrightarrow>
      determine_target e cfg last_mode s = (low_load_mode cfg, s))
   \<and> (\<exists>e' cfg'. load_threshold e' cfg' < read_5min_load e'
        \<and> fst (determine_target e' cfg' ''medium'' s) \<noteq> ''under_attack'')"
proof -
  have "load_threshold env_7004 ex_cfg < read_5min_load env_7004
        \<and> fst (determine_target env_7004 ex_cfg ''medium'' s) \<noteq> ''under_attack''"
    by (simp add: model_defs example_defs py_defs round2_examples)
  then have "\<exists>e' cfg'. load_threshold e' cfg' < read_5min_load e'
        \<and> fst (determine_target e' cfg' ''medium'' s) \<noteq> ''under_attack''"
    by blast
  then show ?thesis
    by (simp add: determine_target_def threshold_def load_now_def)
qed

text \<open>
  Load 7.004 against threshold 7.0: the raw load is greater, the rounded values are
  equal, and the run leaves the zone at \<open>medium\<close>; load 9.30 triggers.
\<close>

theorem comparison_uses_rounded_values_witness:
  "load_threshold env_7004 ex_cfg < read_5min_load env_7004
   \<and> \<not> round2 (load_threshold env_7004 ex_cfg) < round2 (read_5min_load env_7004)
   \<and> determine_target env_7004 ex_cfg ''medium'' (start fs_medium) = (''medium'', start fs_medium)
   \<and> main env_7004 fs_medium = (0, \<lparr>files = fs_medium, ticks = 0, trace = [HttpGet]\<rparr>)
   \<and> fst (decided env_high ex_cfg fs_medium) = ''under_attack''"
  using comparison_uses_rounded_values[of env_7004 ex_cfg "''medium''" "start fs_medium"]
        comparison_uses_rounded_values[of env_high ex_cfg "''medium''" "start fs_medium"]
  by (simp add: model_defs example_defs py_defs round2_examples)

section \<open>Failed load reads\<close>

text \<open>
  C10. If reading or parsing the load sample fails (the file cannot be opened, it has
  fewer than two fields, or the second field is not a float), \<open>read_5min_load\<close>
  returns 0.0. For every nonnegative threshold the rounded load 0.0 does not exceed the
  rounded threshold, so a run whose cached mode is not \<open>under_attack\<close> gets the normal
  mode and touches nothing, and during a cooldown the run behaves as under low load: once
  the cooldown has run out the target is the normal mode and the timestamp file is removed.
\<close>

theorem failed_load_read_is_zero_load:
  assumes "load_read_fails e"
  shows "read_5min_load e = 0
       \<and> (0 \<le> load_threshold e cfg \<longrightarrow>
            \<not> threshold e cfg < load_now e
          \<and> (last_mode \<noteq> ''under_attack'' \<longrightarrow>
                determine_target e cfg last_mode s = (low_load_mode cfg, s))
          \<and> (last_mode = ''under_attack'' \<and> isfile s (ts_file cfg)
              \<and> cooldown_seconds e cfg \<le> clock e (ticks s) - last_or_zero (read_file s (ts_file cfg)) \<longrightarrow>
                determine_target e cfg last_mode s =
                  (low_load_mode cfg, remove_file e (ts_file cfg) (s\<lparr>ticks := Suc (ticks s)\<rparr>))))"
proof -
  have z: "read_5min_load e = 0"
    using assms by (rule read_5min_load_failure)
  have n: "\<not> threshold e cfg < load_now e" if "0 \<le> load_threshold e cfg"
    using that round2_nonneg[of "load_threshold e cfg"]
    by (simp add: threshold_def load_now_def z round2_zero)
  show ?thesis
    using z n by (simp add: determine_target_def time_now_def Let_def)
qed

text \<open>
  \<open>/proc/loadavg\<close> cannot be opened: the load is 0, a run from \<open>medium\<close> does
  nothing, and a run in \<open>under_attack\<close> entered 11000 seconds ago leaves it.
\<close>

theorem failed_load_read_is_zero_load_witness:
  "load_read_fails env_noload
   \<and> read_5min_load env_noload = 0
   \<and> main env_noload fs_medium = (0, \<lparr>files = fs_medium, ticks = 0, trace = [HttpGet]\<rparr>)
   \<and> fst (determine_target env_noload ex_cfg ''under_attack'' (start (fs_attack ''989000''))) = ''medium''"
  using failed_load_read_is_zero_load[of env_noload ex_cfg "''medium''"
          "\<lparr>files = fs_medium, ticks = 0, trace = [HttpGet]\<rparr>"]
        failed_load_read_is_zero_load[of env_noload ex_cfg "''under_attack''" "start (fs_attack ''989000'')"]
  by (simp add: model_defs example_defs py_defs round2_examples round2_zero load_read_fails_def)

section \<open>The activation timestamp and the cached mode\<close>

text \<open>
  C5 as stated does not hold: the timestamp file is removed when the cooldown has run
  out, before the PATCH is attempted, and it stays removed when the PATCH fails. With the
  cache and the zone at \<open>under_attack\<close>, the mode entered 11000 seconds ago, load 1.00
  and a PATCH answered with status 500, the run returns 0, the cached mode remains
  \<open>under_attack\<close>, and the timestamp is cleared.
\<close>

theorem timestamp_invariant_counterexample:
  "guard_consistent ex_cfg (fs_attack ''989000'')
   \<and> fst (main env_low_fail (fs_attack ''989000'')) = 0
   \<and> read_file (snd (main env_low_fail (fs_attack ''989000''))) (cache_file ex_cfg) = ''under_attack''
   \<and> fs_attack ''989000'' (ts_file ex_cfg) \<noteq> None
   \<and> files (snd (main env_low_fail (fs_attack ''989000''))) (ts_file ex_cfg) = None
   \<and> \<not> guard_consistent ex_cfg (files (snd (main env_low_fail (fs_attack ''989000''))))"
  by (simp add: model_defs example_defs py_defs round2_examples guard_consistent_def)

text \<open>
  C5, amended. On a working state store, with a normal mode other than
  \<open>under_attack\<close> and modes without surrounding whitespace, every run in which the
  remote write, if one is attempted, succeeds preserves this: the timestamp file is
  present if and only if the cached mode is \<open>under_attack\<close>. So over such runs the
  timestamp is cleared exactly when the cached mode ends as something other than
  \<open>under_attack\<close> (the cooldown ran out, or a manual change away from it was
  observed), and after a run that leaves the cached mode at \<open>under_attack\<close> the
  timestamp is present. A run whose remote write fails is not covered.
\<close>

theorem timestamp_iff_under_attack_preserved:
  assumes "config e = Some cfg" "store_ok e cfg"
    and "low_load_mode cfg \<noteq> ''under_attack''"
    and "strip (low_load_mode cfg) = low_load_mode cfg"
    and "strip (cf_get_mode e) = cf_get_mode e"
    and "fst (decided e cfg fs) \<noteq> fst (synced e cfg fs) \<longrightarrow> snd (cf_set_mode e (fst (decided e cfg fs)))"
    and "guard_consistent cfg fs"
  shows "guard_consistent cfg (files (snd (main e fs)))
       \<and> (read_file (snd (main e fs)) (cache_file cfg) = ''under_attack'' \<longrightarrow>
            isfile (snd (main e fs)) (ts_file cfg))
       \<and> (fs (ts_file cfg) \<noteq> None \<and> \<not> isfile (snd (main e fs)) (ts_file cfg) \<longrightarrow>
            read_file (snd (main e fs)) (cache_file cfg) \<noteq> ''under_attack'')"
proof -
  have inv: "guard_consistent cfg (files (snd (main e fs)))"
  proof (cases "reaches_sync e cfg")
    case False
    then show ?thesis using assms(1,7) by (simp add: main_early)
  next
    case True
    let ?l = "fst (synced e cfg fs)" and ?s = "snd (synced e cfg fs)"
    let ?t = "fst (decided e cfg fs)" and ?s' = "snd (decided e cfg fs)"
    have d: "decided e cfg fs = determine_target e cfg ?l ?s"
      by (simp add: decided_def case_prod_beta)
    have sy: "read_file ?s (cache_file cfg) = ?l" "(?l = ''under_attack'') = isfile ?s (ts_file cfg)"
      using synced_consistent[OF assms(2,7,5)] by simp_all
    have tg: "(?t = ''under_attack'') = isfile ?s' (ts_file cfg)"
      using determine_target_consistent[OF assms(2) sy(2) assms(3)] by (simp add: d)
    have st: "strip ?t = ?t"
      using determine_target_values[of e cfg ?l ?s] assms(4) by (auto simp add: d strip_under_attack)
    have "files ?s' (cache_file cfg) = files ?s (cache_file cfg)"
      using assms(2) by (simp add: d store_ok_def determine_target_files_other)
    then have rc: "?t = ?l \<longrightarrow> read_file ?s' (cache_file cfg) = ?l"
      using sy(1) by (simp add: read_file_def)
    have fin_c: "read_file (snd (main e fs)) (cache_file cfg) = ?t"
      using apply_mode_cache[OF assms(2,6) st rc] True by (simp add: main_reached)
    have "files (snd (main e fs)) (ts_file cfg) = files ?s' (ts_file cfg)"
      using store_ok_sym[OF assms(2)] assms(2) True
      by (simp add: store_ok_def main_reached apply_mode_files_other)
    then have fin_t: "isfile (snd (main e fs)) (ts_file cfg) = isfile ?s' (ts_file cfg)"
      by (simp add: isfile_def)
    show ?thesis
      using fin_c fin_t tg by (simp add: guard_consistent_state)
  qed
  then show ?thesis
    by (simp add: guard_consistent_state)
qed

text \<open>
  Scenario A of the specification, with a working API: from \<open>medium\<close> without a
  timestamp to \<open>under_attack\<close> with the timestamp of the run.
\<close>

theorem timestamp_iff_under_attack_preserved_witness:
  "guard_consistent ex_cfg fs_medium
   \<and> guard_consistent ex_cfg (files (snd (main env_high fs_medium)))
   \<and> files (snd (main env_high fs_medium)) ''/tmp/cf_mode_cache'' = Some ''under_attack''
   \<and> files (snd (main env_high fs_medium)) ''/tmp/cf_under_attack_timestamp'' = Some ''1000000''"
  using timestamp_iff_under_attack_preserved[of env_high ex_cfg fs_medium]
  by (simp add: model_defs example_defs py_defs round2_examples guard_consistent_def)

section \<open>Idempotence\<close>

text \<open>
  C7 as stated does not hold for a remote write that fails: the next run tries it again.
  With the cache and the zone at \<open>under_attack\<close>, no timestamp file, load 1.00
  and a PATCH answered with status 500, the run computes the target \<open>medium\<close>,
  sends the PATCH and leaves every file as it was; the second run, on the same mode, cache,
  load, timestamp and time, sends the PATCH a second time.
\<close>

theorem idempotence_counterexample:
  "main env_low_fail fs_no_ts =
     (0, \<lparr>files = fs_no_ts, ticks = 0,
          trace = [HttpGet, Print (SettingLevel ''medium''), HttpPatch ''medium'', Print (ApiFailed 500)]\<rparr>)
   \<and> trace (snd (main env_low_fail (files (snd (main env_low_fail fs_no_ts))))) =
       [HttpGet, Print (SettingLevel ''medium''), HttpPatch ''medium'', Print (ApiFailed 500)]"
  by (simp add: model_defs example_defs py_defs round2_examples)

text \<open>
  C7, amended. For every run in which the computed target mode equals the cached mode
  (after the cache sync), the run ends in the state the target computation left: no PATCH
  is sent and no alert is dispatched after it. Consequently, when the remote write of a
  run, if one is attempted, succeeds, a second run started from the files the first run
  left, at the same time and load, with the zone reporting the first run's target,
  computes the same target and does nothing but the GET: no second remote write and no
  alert. The second part is for a working state store and a non-empty normal mode without
  surrounding whitespace.
\<close>

theorem unchanged_target_is_noop:
  assumes "reaches_sync e cfg"
  shows "(fst (decided e cfg fs) = fst (synced e cfg fs) \<longrightarrow> main e fs = (0, snd (decided e cfg fs)))
       \<and> (store_ok e cfg \<and> low_load_mode cfg \<noteq> [] \<and> strip (low_load_mode cfg) = low_load_mode cfg
          \<and> (\<forall>i. clock e i = now)
          \<and> (fst (decided e cfg fs) \<noteq> fst (synced e cfg fs) \<longrightarrow>
                snd (cf_set_mode e (fst (decided e cfg fs)))) \<longrightarrow>
            fst (decided (e\<lparr>get_response := (200, Body True (Some (fst (decided e cfg fs))))\<rparr>) cfg
                   (files (snd (main e fs)))) = fst (decided e cfg fs)
          \<and> main (e\<lparr>get_response := (200, Body True (Some (fst (decided e cfg fs))))\<rparr>)
                   (files (snd (main e fs)))
              = (0, snd (decided (e\<lparr>get_response := (200, Body True (Some (fst (decided e cfg fs))))\<rparr>) cfg
                   (files (snd (main e fs)))))
          \<and> trace (snd (main (e\<lparr>get_response := (200, Body True (Some (fst (decided e cfg fs))))\<rparr>)
                   (files (snd (main e fs))))) = [HttpGet])"
proof -
  let ?l = "fst (synced e cfg fs)" and ?s = "snd (synced e cfg fs)"
  let ?t = "fst (decided e cfg fs)" and ?s' = "snd (decided e cfg fs)"
  let ?e2 = "e\<lparr>get_response := (200, Body True (Some ?t))\<rparr>"
  let ?fs1 = "files (snd (main e fs))"
  let ?x = "\<lparr>files = ?fs1, ticks = 0, trace = [HttpGet]\<rparr>"
  have d: "decided e cfg fs = determine_target e cfg ?l ?s"
    by (simp add: decided_def case_prod_beta)
  have m: "main e fs = (0, apply_mode e cfg ?t ?l ?s')"
    using assms by (rule main_reached)
  have part1: "main e fs = (0, ?s')" if "?t = ?l"
    using that m by (simp add: apply_mode_same)
  have part2: "fst (decided ?e2 cfg ?fs1) = ?t \<and> main ?e2 ?fs1 = (0, snd (decided ?e2 cfg ?fs1))
               \<and> trace (snd (main ?e2 ?fs1)) = [HttpGet]"
    if ok: "store_ok e cfg" and ne: "low_load_mode cfg \<noteq> []"
      and sl: "strip (low_load_mode cfg) = low_load_mode cfg"
      and ck: "\<forall>i. clock e i = now"
      and su: "?t \<noteq> ?l \<longrightarrow> snd (cf_set_mode e ?t)"
  proof -
    have tv: "?t = ''under_attack'' \<or> ?t = low_load_mode cfg"
      using determine_target_values[of e cfg ?l ?s] by (simp add: d)
    have st: "strip ?t = ?t"
      using tv sl by (auto simp add: strip_under_attack)
    have tne: "?t \<noteq> []"
      using tv ne by auto
    have "files ?s' (cache_file cfg) = files ?s (cache_file cfg)"
      using ok by (simp add: d store_ok_def determine_target_files_other)
    then have rs: "read_file ?s' (cache_file cfg) = read_file ?s (cache_file cfg)"
      by (simp add: read_file_def)
    have rc: "?t = ?l \<longrightarrow> read_file ?s' (cache_file cfg) = ?l"
      using synced_cache_read[OF ok, of fs] st rs by auto
    have c1: "read_file (start ?fs1) (cache_file cfg) = ?t"
      using apply_mode_cache[OF ok su st rc] m by (simp add: read_file_def start_def)
    have g2: "cf_get_mode ?e2 = ?t"
      by (rule cf_get_mode_answer)
    have r2: "reaches_sync ?e2 cfg"
      using assms tne by (simp add: reaches_sync_def g2)
    have sy2: "synced ?e2 cfg ?fs1 = (?t, ?x)"
      using synced_no_drift[of ?e2 ?fs1 cfg] c1 g2 by simp
    have d2: "decided ?e2 cfg ?fs1 = determine_target e cfg ?t ?x"
      by (simp add: decided_eq[OF sy2] determine_target_get_response)
    have keep: "files ?x (ts_file cfg) = files ?s (ts_file cfg)"
      if h: "\<not> threshold e cfg < load_now e \<and> ?l = ''under_attack'' \<and> isfile ?s (ts_file cfg)
          \<and> now - last_or_zero (read_file ?s (ts_file cfg)) < cooldown_seconds e cfg"
    proof -
      have "determine_target e cfg ?l ?s = (''under_attack'', ?s\<lparr>ticks := Suc (ticks ?s)\<rparr>)"
        using h ck by (simp add: determine_target_def time_now_def Let_def)
      then have "?t = ?l" "?s' = ?s\<lparr>ticks := Suc (ticks ?s)\<rparr>"
        using h by (simp_all add: d)
      then show ?thesis
        using m by (simp add: apply_mode_same)
    qed
    have t2: "fst (determine_target e cfg ?t ?x) = ?t"
      using determine_target_again[OF ck, of cfg ?l ?s ?t ?x] keep by (simp add: d)
    have m2: "main ?e2 ?fs1 = (0, snd (decided ?e2 cfg ?fs1))"
      using main_reached[OF r2, of ?fs1] sy2 t2 by (simp add: d2 apply_mode_same)
    have tr: "trace (snd (main ?e2 ?fs1)) = [HttpGet]"
      by (simp add: m2 d2 determine_target_trace)
    show ?thesis using t2 m2 tr by (simp add: d2)
  qed
  show ?thesis using part1 part2 by blast
qed

text \<open>
  Scenario B (the target equals the cached mode: only the GET happens), and Scenario A
  run twice: the first run sends the PATCH and the alert, the second run, with the zone
  now at \<open>under_attack\<close>, only the GET.
\<close>

theorem unchanged_target_is_noop_witness:
  "main env_low (fs_attack ''992800'') = (0, \<lparr>files = fs_attack ''992800'', ticks = 1, trace = [HttpGet]\<rparr>)
   \<and> trace (snd (main env_high fs_medium)) =
       [HttpGet, Print (SettingLevel ''under_attack''), HttpPatch ''under_attack'',
        SlackPost ''https://hooks.example/T1'' True (ex_alert Entered ''under_attack'' (93 / 10))]
   \<and> fst (decided (env_high\<lparr>get_response := (200, Body True (Some ''under_attack''))\<rparr>) ex_cfg
            (files (snd (main env_high fs_medium)))) = ''under_attack''
   \<and> trace (snd (main (env_high\<lparr>get_response := (200, Body True (Some ''under_attack''))\<rparr>)
            (files (snd (main env_high fs_medium))))) = [HttpGet]"
  using unchanged_target_is_noop[of env_low ex_cfg "fs_attack ''992800''" 1000000]
        unchanged_target_is_noop[of env_high ex_cfg fs_medium 1000000]
  by (simp add: model_defs example_defs py_defs round2_examples)

end
